theory Spec2Isabelle
  imports Main "HOL-Library.Word"
begin

section \<open>The Sprite file system bridge (src/src/spriteFileSystem.ts)\<close>

text \<open>
  The provider translates each file system operation into shell commands that a remote
  target executes, and parses the text that comes back. The remote side (the
  \<^verbatim>\<open>@fly/sprites\<close> client and the shell behind it) is not part of the repository: it is
  a parameter of the model, a function from a command and the remote's state to a reply
  and the remote's next state.

  JavaScript strings are modelled as \<^typ>\<open>string\<close>, one \<^typ>\<open>char\<close> per code unit, for
  code units below 256. Standard output and standard error arrive as a string or as a
  Buffer; both are a \<^typ>\<open>string\<close> here, so that \<^verbatim>\<open>toStr\<close> (a string stays, a Buffer is
  decoded) returns its argument.
\<close>

definition toStr :: "string \<Rightarrow> string" where
  [simp]: "toStr v = v"

subsection \<open>JavaScript string operations used by the provider\<close>

definition js_space :: "char \<Rightarrow> bool" where
  \<comment> \<open>the white space of \<^verbatim>\<open>String.prototype.trim\<close> and of the regular expression
      class \<^verbatim>\<open>\s\<close>, among the code units below 256: TAB, LF, VT, FF, CR, SP, NBSP\<close>
  "js_space c \<longleftrightarrow> c = CHR 0x09 \<or> c = CHR 0x0A \<or> c = CHR 0x0B \<or> c = CHR 0x0C
     \<or> c = CHR 0x0D \<or> c = CHR 0x20 \<or> c = CHR 0xA0"

definition trim :: "string \<Rightarrow> string" where
  "trim s = rev (dropWhile js_space (rev (dropWhile js_space s)))"

definition strip_space :: "string \<Rightarrow> string" where
  \<comment> \<open>\<^verbatim>\<open>s.replace(/\s/g, '')\<close>\<close>
  "strip_space s = filter (\<lambda>c. \<not> js_space c) s"

fun split_on :: "char \<Rightarrow> string \<Rightarrow> string list" where
  \<comment> \<open>\<^verbatim>\<open>s.split(sep)\<close> for a separator of one character\<close>
  "split_on sep [] = [ [] ]"
| "split_on sep (c # cs) =
     (if c = sep then [] # split_on sep cs
      else (case split_on sep cs of
              [] \<Rightarrow> [ [c] ]
            | w # ws \<Rightarrow> (c # w) # ws))"

fun starts_with :: "string \<Rightarrow> string \<Rightarrow> bool" where
  "starts_with s [] = True"
| "starts_with [] (t # ts) = False"
| "starts_with (c # cs) (t # ts) = (c = t \<and> starts_with cs ts)"

fun str_includes :: "string \<Rightarrow> string \<Rightarrow> bool" where
  \<comment> \<open>\<^verbatim>\<open>s.includes(t)\<close>\<close>
  "str_includes [] t = (t = [])"
| "str_includes (c # cs) t = (starts_with (c # cs) t \<or> str_includes cs t)"

definition endsWith :: "string \<Rightarrow> char \<Rightarrow> bool" where
  \<comment> \<open>\<^verbatim>\<open>s.endsWith(c)\<close> for one character\<close>
  "endsWith s c \<longleftrightarrow> s \<noteq> [] \<and> last s = c"

definition slice_0_m1 :: "string \<Rightarrow> string" where
  \<comment> \<open>\<^verbatim>\<open>s.slice(0, -1)\<close>\<close>
  "slice_0_m1 s = butlast s"

fun lastIndexOf :: "string \<Rightarrow> char \<Rightarrow> int" where
  \<comment> \<open>\<^verbatim>\<open>s.lastIndexOf(c)\<close>: the last position of \<open>c\<close>, or \<open>-1\<close>\<close>
  "lastIndexOf [] c = -1"
| "lastIndexOf (x # xs) c =
     (let i = lastIndexOf xs c in
      if 0 \<le> i then i + 1 else if x = c then 0 else -1)"

definition substring_0 :: "string \<Rightarrow> int \<Rightarrow> string" where
  \<comment> \<open>\<^verbatim>\<open>s.substring(0, n)\<close>: a negative end counts as 0\<close>
  "substring_0 s n = take (nat n) s"

subsection \<open>Locators, results, errors\<close>

record uri =
  authority :: string
  path :: string

datatype fileType = Unknown | File | Directory | SymbolicLink

datatype fileChangeType = Changed | Created | Deleted

text \<open>
  The numbers of \<open>stat\<close>: \<^verbatim>\<open>NaN\<close>, an integer that a double holds exactly (up to
  \<open>2 ^ 53\<close> in size), or an integer beyond that, which JavaScript rounds: its value is
  left open.
\<close>

datatype js_number = NaN | Num int | Beyond

record fileStat =
  type :: fileType
  ctime :: js_number
  mtime :: js_number
  size :: js_number

text \<open>The four \<^verbatim>\<open>vscode.FileSystemError\<close> factories the provider uses.\<close>

datatype fileSystemError =
    FileNotFound uri
  | FileExists uri
  | NoPermissions string
  | Unavailable string

text \<open>
  What a \<^verbatim>\<open>try\<close> block can throw: a \<^verbatim>\<open>FileSystemError\<close>, or any other error, of
  which only the message is read.
\<close>

datatype thrown = FsError fileSystemError | Error string

definition parseUri :: "uri \<Rightarrow> string \<times> string" where
  "parseUri u = (authority u, if path u = [] then ''/'' else path u)"

subsection \<open>The shell commands\<close>

text \<open>Each template literal of the source, as a function of what it interpolates.\<close>

definition stat_cmd :: "string \<Rightarrow> string" where
  \<open>stat_cmd pth = ''stat -c '%F|%s|%Y|%X' "'' @ pth @ ''" 2>/dev/null || echo "NOTFOUND"''\<close>

definition ls_cmd :: "string \<Rightarrow> string" where
  \<open>ls_cmd pth = ''ls -1ApL "'' @ pth @ ''" 2>/dev/null''\<close>

definition base64_cmd :: "string \<Rightarrow> string" where
  \<open>base64_cmd pth = ''base64 "'' @ pth @ ''" 2>/dev/null''\<close>

definition test_f_cmd :: "string \<Rightarrow> string" where
  \<open>test_f_cmd pth = ''test -f "'' @ pth @ ''" && echo EXISTS''\<close>

definition exists_cmd :: "string \<Rightarrow> string" where
  \<open>exists_cmd pth = ''test -e "'' @ pth @ ''" && echo EXISTS || echo NOTEXISTS''\<close>

definition mkdir_cmd :: "string \<Rightarrow> string" where
  \<open>mkdir_cmd dir = ''mkdir -p "'' @ dir @ ''"''\<close>

definition write_cmd :: "string \<Rightarrow> string \<Rightarrow> string" where
  \<open>write_cmd base64Content pth =
     ''echo "'' @ base64Content @ ''" | base64 -d > "'' @ pth @ ''"''\<close>

definition rm_cmd :: "string \<Rightarrow> string \<Rightarrow> string" where
  \<open>rm_cmd flags pth = ''rm '' @ flags @ '' "'' @ pth @ ''"''\<close>

definition test_e_cmd :: "string \<Rightarrow> string" where
  \<open>test_e_cmd pth = ''test -e "'' @ pth @ ''" && echo EXISTS''\<close>

definition mv_cmd :: "string \<Rightarrow> string \<Rightarrow> string" where
  \<open>mv_cmd oldPath newPath = ''mv "'' @ oldPath @ ''" "'' @ newPath @ ''"''\<close>

definition parentDir :: "string \<Rightarrow> string" where
  \<comment> \<open>\<^verbatim>\<open>path.substring(0, path.lastIndexOf('/')) || '/'\<close>\<close>
  "parentDir pth =
     (let d = substring_0 pth (lastIndexOf pth (CHR ''/'')) in if d = [] then ''/'' else d)"

subsection \<open>How a shell reads a double-quoted word\<close>

text \<open>
  The reading of "escaped for safe interpolation into a double-quoted shell argument":
  the POSIX shell's rule for the text after an opening double quote. A dollar sign and
  a backquote start an expansion, a backslash escapes exactly the characters
  \<^verbatim>\<open>$\<close>, backquote, double quote and backslash (and joins lines), and the first
  unescaped double quote closes the word. \<open>dq_read\<close> returns the characters the word
  denotes and the rest of the command line.
\<close>

datatype dq_word = Word string string | Expansion | Unclosed

fun dq_read :: "string \<Rightarrow> string \<Rightarrow> dq_word" where
  "dq_read acc [] = Unclosed"
| "dq_read acc (c # cs) =
     (if c = CHR 0x22 then Word (rev acc) cs
      else if c = CHR ''$'' \<or> c = CHR 0x60 then Expansion
      else if c = CHR 0x5C then
        (case cs of
           [] \<Rightarrow> Unclosed
         | d # ds \<Rightarrow>
             if d = CHR 0x22 \<or> d = CHR ''$'' \<or> d = CHR 0x60 \<or> d = CHR 0x5C
             then dq_read (d # acc) ds
             else if d = CHR 0x0A then dq_read acc ds
             else dq_read (d # c # acc) ds)
      else dq_read (c # acc) cs)"

definition reads_quoted :: "string \<Rightarrow> string \<Rightarrow> string \<Rightarrow> string \<Rightarrow> bool" where
  \<comment> \<open>the command is \<open>pre\<close> (ending with the opening quote), then a quoted word that
      denotes exactly \<open>arg\<close>, then \<open>post\<close>\<close>
  "reads_quoted pre arg post cmd \<longleftrightarrow>
     take (length pre) cmd = pre \<and> dq_read [] (drop (length pre) cmd) = Word arg post"

definition shell_plain :: "string \<Rightarrow> bool" where
  \<comment> \<open>no double quote, dollar sign, backquote or backslash\<close>
  "shell_plain s \<longleftrightarrow>
     list_all (\<lambda>c. c \<noteq> CHR 0x22 \<and> c \<noteq> CHR ''$'' \<and> c \<noteq> CHR 0x60 \<and> c \<noteq> CHR 0x5C) s"

subsection \<open>Numbers and the clock\<close>

definition is_digit :: "char \<Rightarrow> bool" where
  "is_digit c \<longleftrightarrow> 48 \<le> (of_char c :: nat) \<and> (of_char c :: nat) \<le> 57"

fun digits_value :: "int \<Rightarrow> string \<Rightarrow> int" where
  \<comment> \<open>the value of the longest prefix of decimal digits, after the digits already read\<close>
  "digits_value n [] = n"
| "digits_value n (c # cs) =
     (if is_digit c then digits_value (10 * n + (int (of_char c) - 48)) cs else n)"

definition js_integer :: "int \<Rightarrow> js_number" where
  \<comment> \<open>an integer as a JavaScript number\<close>
  "js_integer n = (if \<bar>n\<bar> \<le> 2 ^ 53 then Num n else Beyond)"

definition parseInt :: "string option \<Rightarrow> js_number" where
  \<comment> \<open>\<^verbatim>\<open>parseInt(s, 10)\<close>; the argument \<open>None\<close> is \<^verbatim>\<open>undefined\<close>\<close>
  "parseInt v =
     (case v of
        None \<Rightarrow> NaN
      | Some s \<Rightarrow>
          (let t = dropWhile js_space s;
               neg = (t \<noteq> [] \<and> hd t = CHR ''-'');
               r = (if t \<noteq> [] \<and> (hd t = CHR ''-'' \<or> hd t = CHR ''+'') then tl t else t)
           in if r \<noteq> [] \<and> is_digit (hd r)
              then js_integer (if neg then - digits_value 0 r else digits_value 0 r)
              else NaN))"

definition times_1000 :: "js_number \<Rightarrow> js_number" where
  \<comment> \<open>\<^verbatim>\<open>x * 1000\<close>\<close>
  "times_1000 x = (case x of NaN \<Rightarrow> NaN | Num n \<Rightarrow> js_integer (n * 1000) | Beyond \<Rightarrow> Beyond)"

definition falsy :: "js_number \<Rightarrow> bool" where
  \<comment> \<open>the numbers that \<^verbatim>\<open>||\<close> passes over: \<^verbatim>\<open>NaN\<close> and zero\<close>
  "falsy x \<longleftrightarrow> x = NaN \<or> x = Num 0"

definition nth_opt :: "'a list \<Rightarrow> nat \<Rightarrow> 'a option" where
  \<comment> \<open>an element of an array, \<^verbatim>\<open>undefined\<close> beyond its end\<close>
  "nth_opt xs n = (if n < length xs then Some (xs ! n) else None)"

subsection \<open>Base64\<close>

type_synonym byte = "8 word"

definition base64_alphabet :: string where
  "base64_alphabet = ''ABCDEFGHIJKLMNOPQRSTUVWXYZabcdefghijklmnopqrstuvwxyz0123456789+/''"

definition b64_char :: "nat \<Rightarrow> char" where
  "b64_char n = base64_alphabet ! (n mod 64)"

fun index_of :: "char \<Rightarrow> string \<Rightarrow> nat option" where
  "index_of c [] = None"
| "index_of c (x # xs) = (if c = x then Some 0 else map_option Suc (index_of c xs))"

definition b64_index :: "char \<Rightarrow> nat option" where
  "b64_index c = index_of c base64_alphabet"

fun toBase64 :: "byte list \<Rightarrow> string" where
  \<comment> \<open>\<^verbatim>\<open>Buffer.from(content).toString('base64')\<close>: RFC 4648, with padding\<close>
  "toBase64 [] = []"
| "toBase64 [a] =
     [b64_char (unat a div 4), b64_char (unat a mod 4 * 16), CHR ''='', CHR ''='']"
| "toBase64 [a, b] =
     [b64_char (unat a div 4), b64_char (unat a mod 4 * 16 + unat b div 16),
      b64_char (unat b mod 16 * 4), CHR ''='']"
| "toBase64 (a # b # c # rest) =
     [b64_char (unat a div 4), b64_char (unat a mod 4 * 16 + unat b div 16),
      b64_char (unat b mod 16 * 4 + unat c div 64), b64_char (unat c mod 64)]
     @ toBase64 rest"

fun decode_sextets :: "nat list \<Rightarrow> nat list" where
  \<comment> \<open>four sextets give three octets; a last group of two gives one octet and of three
      gives two, the bits left over being dropped\<close>
  "decode_sextets (a # b # c # d # rest) =
     [a * 4 + b div 16, b mod 16 * 16 + c div 4, c mod 4 * 64 + d] @ decode_sextets rest"
| "decode_sextets [a, b, c] = [a * 4 + b div 16, b mod 16 * 16 + c div 4]"
| "decode_sextets [a, b] = [a * 4 + b div 16]"
| "decode_sextets [a] = []"
| "decode_sextets [] = []"

fun sextets_of :: "byte list \<Rightarrow> nat list" where
  \<comment> \<open>the sextets that \<open>toBase64\<close> writes, without the padding (used in the proofs)\<close>
  "sextets_of [] = []"
| "sextets_of [a] = [unat a div 4, unat a mod 4 * 16]"
| "sextets_of [a, b] = [unat a div 4, unat a mod 4 * 16 + unat b div 16, unat b mod 16 * 4]"
| "sextets_of (a # b # c # rest) =
     [unat a div 4, unat a mod 4 * 16 + unat b div 16,
      unat b mod 16 * 4 + unat c div 64, unat c mod 64] @ sextets_of rest"

definition ascii_space :: "char \<Rightarrow> bool" where
  \<comment> \<open>ASCII whitespace: TAB, LF, FF, CR, SP\<close>
  "ascii_space c \<longleftrightarrow> c = CHR 0x09 \<or> c = CHR 0x0A \<or> c = CHR 0x0C \<or> c = CHR 0x0D \<or> c = CHR 0x20"

definition strip_padding :: "string \<Rightarrow> string" where
  \<comment> \<open>when the length is a multiple of four, one or two closing \<^verbatim>\<open>=\<close> are removed\<close>
  "strip_padding s =
     (if length s mod 4 = 0 \<and> s \<noteq> [] \<and> last s = CHR ''=''
      then (if butlast s \<noteq> [] \<and> last (butlast s) = CHR ''=''
            then butlast (butlast s) else butlast s)
      else s)"

definition atob :: "string \<Rightarrow> string option" where
  \<comment> \<open>the global \<^verbatim>\<open>atob\<close> (forgiving-base64 decode); \<open>None\<close> where it throws\<close>
  "atob dat =
     (let d = strip_padding (filter (\<lambda>c. \<not> ascii_space c) dat) in
      if length d mod 4 = 1 then None
      else (case those (map b64_index d) of
              None \<Rightarrow> None
            | Some sextets \<Rightarrow> Some (map char_of (decode_sextets sextets))))"

definition charCodeAt :: "char \<Rightarrow> byte" where
  \<comment> \<open>\<^verbatim>\<open>bytes[i] = binaryString.charCodeAt(i)\<close>\<close>
  "charCodeAt c = of_nat (of_char c)"

definition base64_d :: "string \<Rightarrow> byte list option" where
  \<comment> \<open>The remote's \<^verbatim>\<open>base64 -d\<close> (not part of the repository), as RFC 4648 has it:
      line breaks are skipped, the length is a multiple of four, padding closes the
      last group.\<close>
  "base64_d s =
     (let d = filter (\<lambda>c. c \<noteq> CHR 0x0A) s in
      if length d mod 4 \<noteq> 0 then None
      else (case those (map b64_index (strip_padding d)) of
              None \<Rightarrow> None
            | Some sextets \<Rightarrow> Some (map of_nat (decode_sextets sextets))))"

subsection \<open>The provider and its environment\<close>

record exec_result =
  stdout :: string
  stderr :: string

text \<open>
  A \<^verbatim>\<open>Sprite\<close> handle is its \<^verbatim>\<open>exec\<close>: from a command and the remote's state to
  the reply and the remote's next state. The reply is \<open>Inl message\<close> when the promise is
  rejected (a transport failure), \<open>Inr result\<close> otherwise. A \<^verbatim>\<open>SpritesClient\<close> is its
  \<^verbatim>\<open>sprite(name)\<close>.
\<close>

type_synonym 'r sprite = "string \<Rightarrow> 'r \<Rightarrow> (string + exec_result) \<times> 'r"

type_synonym 'r spritesClient = "string \<Rightarrow> 'r sprite"

text \<open>
  The provider's fields (\<open>client\<close>, \<open>spriteCache\<close>), what it has sent to its event
  emitter (\<open>fired\<close>, one list per call of \<^verbatim>\<open>fire\<close>), and its environment: the remote's
  state, the commands handed to \<^verbatim>\<open>exec\<close> so far (\<open>issued\<close>), and the readings of
  \<^verbatim>\<open>Date.now()\<close> (\<open>clock\<close>, of which \<open>readings\<close> have been taken), and the message
  of the error that the runtime's \<^verbatim>\<open>atob\<close> throws for a string it does not decode
  (\<open>atob_error\<close>; the message differs between runtimes).
\<close>

record 'r world =
  client :: "'r spritesClient option"
  spriteCache :: "string \<rightharpoonup> 'r sprite"
  fired :: "(fileChangeType \<times> uri) list list"
  remote :: 'r
  issued :: "string list"
  clock :: "nat \<Rightarrow> int"
  readings :: nat
  atob_error :: "string \<Rightarrow> string"

definition date_now :: "'r world \<Rightarrow> js_number \<times> 'r world" where
  "date_now w = (js_integer (clock w (readings w)), w\<lparr>readings := Suc (readings w)\<rparr>)"

definition fire :: "(fileChangeType \<times> uri) list \<Rightarrow> 'r world \<Rightarrow> 'r world" where
  "fire events w = w\<lparr>fired := fired w @ [events]\<rparr>"

definition exec :: "'r sprite \<Rightarrow> string \<Rightarrow> 'r world \<Rightarrow> (string + exec_result) \<times> 'r world" where
  "exec sprite cmd w =
     (case sprite cmd (remote w) of
        (reply, r) \<Rightarrow> (reply, w\<lparr>remote := r, issued := issued w @ [cmd]\<rparr>))"

definition setClient :: "'r spritesClient \<Rightarrow> 'r world \<Rightarrow> 'r world" where
  "setClient c w = w\<lparr>client := Some c, spriteCache := Map.empty\<rparr>"

definition getSprite :: "string \<Rightarrow> 'r world \<Rightarrow> (fileSystemError + 'r sprite) \<times> 'r world" where
  "getSprite spriteName w =
     (case client w of
        None \<Rightarrow> (Inl (Unavailable ''Not connected to Sprites API''), w)
      | Some c \<Rightarrow>
          (case spriteCache w spriteName of
             Some sprite \<Rightarrow> (Inr sprite, w)
           | None \<Rightarrow>
               (Inr (c spriteName),
                w\<lparr>spriteCache := (spriteCache w)(spriteName \<mapsto> c spriteName)\<rparr>)))"

text \<open>The two shapes of \<^verbatim>\<open>catch\<close> block.\<close>

definition catch_rethrow :: "(thrown + 'a) \<times> 'w \<Rightarrow> (fileSystemError + 'a) \<times> 'w" where
  \<comment> \<open>a \<^verbatim>\<open>FileSystemError\<close> is thrown again, anything else becomes \<^verbatim>\<open>Unavailable\<close>\<close>
  "catch_rethrow r =
     (case r of
        (Inl (FsError e), w) \<Rightarrow> (Inl e, w)
      | (Inl (Error msg), w) \<Rightarrow> (Inl (Unavailable msg), w)
      | (Inr v, w) \<Rightarrow> (Inr v, w))"

definition catch_unavailable :: "(string + 'a) \<times> 'w \<Rightarrow> (fileSystemError + 'a) \<times> 'w" where
  \<comment> \<open>every error becomes \<^verbatim>\<open>Unavailable\<close> with its message\<close>
  "catch_unavailable r =
     (case r of
        (Inl msg, w) \<Rightarrow> (Inl (Unavailable msg), w)
      | (Inr v, w) \<Rightarrow> (Inr v, w))"

subsection \<open>The operations\<close>

definition watch :: "uri \<Rightarrow> 'r world \<Rightarrow> 'r world" where
  \<comment> \<open>file watching is not implemented\<close>
  "watch u w = w"

definition file_kind :: "string \<Rightarrow> fileType" where
  "file_kind typeStr =
     (if str_includes typeStr ''directory'' then Directory
      else if str_includes typeStr ''regular'' \<or> str_includes typeStr ''file'' then File
      else if str_includes typeStr ''symbolic link'' then SymbolicLink
      else Unknown)"

definition or_now :: "js_number \<Rightarrow> 'r world \<Rightarrow> js_number \<times> 'r world" where
  \<comment> \<open>\<^verbatim>\<open>x || Date.now()\<close>\<close>
  "or_now x w = (if falsy x then date_now w else (x, w))"

definition stat_try :: "'r sprite \<Rightarrow> uri \<Rightarrow> string \<Rightarrow> 'r world \<Rightarrow> (thrown + fileStat) \<times> 'r world" where
  "stat_try sprite u pth w =
     (case exec sprite (stat_cmd pth) w of
        (Inl msg, w1) \<Rightarrow> (Inl (Error msg), w1)
      | (Inr result, w1) \<Rightarrow>
          (let output = trim (toStr (stdout result)) in
           if output = ''NOTFOUND'' \<or> output = [] then (Inl (FsError (FileNotFound u)), w1)
           else
             (let parts = split_on (CHR ''|'') output;
                  sz = (let n = parseInt (nth_opt parts 1) in if falsy n then Num 0 else n)
              in (case or_now (times_1000 (parseInt (nth_opt parts 2))) w1 of
                    (mt, w2) \<Rightarrow>
                      (case or_now (times_1000 (parseInt (nth_opt parts 3))) w2 of
                         (ct, w3) \<Rightarrow>
                           (case nth_opt parts 0 of
                              None \<Rightarrow> (Inl (Error ''typeStr is undefined''), w3)
                            | Some typeStr \<Rightarrow>
                                (Inr \<lparr>type = file_kind typeStr, ctime = ct, mtime = mt,
                                      size = sz\<rparr>, w3)))))))"

definition stat :: "uri \<Rightarrow> 'r world \<Rightarrow> (fileSystemError + fileStat) \<times> 'r world" where
  "stat u w =
     (case parseUri u of
        (spriteName, pth) \<Rightarrow>
          (case getSprite spriteName w of
             (Inl e, w0) \<Rightarrow> (Inl e, w0)
           | (Inr sprite, w0) \<Rightarrow> catch_rethrow (stat_try sprite u pth w0)))"

definition entry_of :: "string \<Rightarrow> string \<times> fileType" where
  \<comment> \<open>the name and type that one line of the listing gives\<close>
  "entry_of line =
     (if endsWith line (CHR ''/'') then (slice_0_m1 line, Directory)
      else if endsWith line (CHR ''@'') then (slice_0_m1 line, SymbolicLink)
      else if endsWith line (CHR ''*'') then (slice_0_m1 line, File)
      else if endsWith line (CHR ''|'') \<or> endsWith line (CHR ''='') then (slice_0_m1 line, File)
      else (line, File))"

fun entries_of :: "string list \<Rightarrow> (string \<times> fileType) list" where
  \<comment> \<open>the loop over the lines\<close>
  "entries_of [] = []"
| "entries_of (line # rest) =
     (if line = [] then entries_of rest
      else (case entry_of line of
              (name, t) \<Rightarrow>
                if name \<noteq> [] \<and> name \<noteq> ''.'' \<and> name \<noteq> ''..''
                then (name, t) # entries_of rest
                else entries_of rest))"

definition readDirectory ::
  "uri \<Rightarrow> 'r world \<Rightarrow> (fileSystemError + (string \<times> fileType) list) \<times> 'r world" where
  "readDirectory u w =
     (case parseUri u of
        (spriteName, pth) \<Rightarrow>
          (case getSprite spriteName w of
             (Inl e, w0) \<Rightarrow> (Inl e, w0)
           | (Inr sprite, w0) \<Rightarrow>
               catch_unavailable
                 (case exec sprite (ls_cmd pth) w0 of
                    (Inl msg, w1) \<Rightarrow> (Inl msg, w1)
                  | (Inr result, w1) \<Rightarrow>
                      (let output = trim (toStr (stdout result)) in
                       if output = [] then (Inr [], w1)
                       else (Inr (entries_of (split_on (CHR 0x0A) output)), w1)))))"

definition readFile_try ::
  "'r sprite \<Rightarrow> uri \<Rightarrow> string \<Rightarrow> 'r world \<Rightarrow> (thrown + byte list) \<times> 'r world" where
  "readFile_try sprite u pth w =
     (case exec sprite (base64_cmd pth) w of
        (Inl msg, w1) \<Rightarrow> (Inl (Error msg), w1)
      | (Inr result, w1) \<Rightarrow>
          (let base64Content = strip_space (toStr (stdout result)) in
           if base64Content = [] then
             (case exec sprite (test_f_cmd pth) w1 of
                (Inl msg, w2) \<Rightarrow> (Inl (Error msg), w2)
              | (Inr checkResult, w2) \<Rightarrow>
                  if trim (toStr (stdout checkResult)) = ''EXISTS'' then (Inr [], w2)
                  else (Inl (FsError (FileNotFound u)), w2))
           else
             (case atob base64Content of
                None \<Rightarrow> (Inl (Error (atob_error w1 base64Content)), w1)
              | Some binaryString \<Rightarrow> (Inr (map charCodeAt binaryString), w1))))"

definition readFile :: "uri \<Rightarrow> 'r world \<Rightarrow> (fileSystemError + byte list) \<times> 'r world" where
  "readFile u w =
     (case parseUri u of
        (spriteName, pth) \<Rightarrow>
          (case getSprite spriteName w of
             (Inl e, w0) \<Rightarrow> (Inl e, w0)
           | (Inr sprite, w0) \<Rightarrow> catch_rethrow (readFile_try sprite u pth w0)))"

record overwriteOption =
  overwrite :: bool

record writeOptions = overwriteOption +
  create :: bool

record deleteOptions =
  recursive :: bool

definition writeFile_try ::
  "'r sprite \<Rightarrow> uri \<Rightarrow> string \<Rightarrow> byte list \<Rightarrow> writeOptions \<Rightarrow> 'r world
     \<Rightarrow> (thrown + unit) \<times> 'r world" where
  "writeFile_try sprite u pth content options w =
     (case exec sprite (exists_cmd pth) w of
        (Inl msg, w1) \<Rightarrow> (Inl (Error msg), w1)
      | (Inr existsResult, w1) \<Rightarrow>
          (let exists = (trim (toStr (stdout existsResult)) = ''EXISTS'') in
           if exists \<and> \<not> overwrite options then (Inl (FsError (FileExists u)), w1)
           else if \<not> exists \<and> \<not> create options then (Inl (FsError (FileNotFound u)), w1)
           else
             (case exec sprite (mkdir_cmd (parentDir pth)) w1 of
                (Inl msg, w2) \<Rightarrow> (Inl (Error msg), w2)
              | (Inr mkdirResult, w2) \<Rightarrow>
                  (case exec sprite (write_cmd (toBase64 content) pth) w2 of
                     (Inl msg, w3) \<Rightarrow> (Inl (Error msg), w3)
                   | (Inr writeResult, w3) \<Rightarrow>
                       (Inr (), fire [(if exists then Changed else Created, u)] w3)))))"

definition writeFile ::
  "uri \<Rightarrow> byte list \<Rightarrow> writeOptions \<Rightarrow> 'r world \<Rightarrow> (fileSystemError + unit) \<times> 'r world" where
  "writeFile u content options w =
     (case parseUri u of
        (spriteName, pth) \<Rightarrow>
          (case getSprite spriteName w of
             (Inl e, w0) \<Rightarrow> (Inl e, w0)
           | (Inr sprite, w0) \<Rightarrow>
               catch_rethrow (writeFile_try sprite u pth content options w0)))"

definition createDirectory :: "uri \<Rightarrow> 'r world \<Rightarrow> (fileSystemError + unit) \<times> 'r world" where
  "createDirectory u w =
     (case parseUri u of
        (spriteName, pth) \<Rightarrow>
          (case getSprite spriteName w of
             (Inl e, w0) \<Rightarrow> (Inl e, w0)
           | (Inr sprite, w0) \<Rightarrow>
               catch_unavailable
                 (case exec sprite (mkdir_cmd pth) w0 of
                    (Inl msg, w1) \<Rightarrow> (Inl msg, w1)
                  | (Inr result, w1) \<Rightarrow>
                      if stderr result \<noteq> [] \<and> str_includes (toStr (stderr result)) ''error''
                      then (Inl (toStr (stderr result)), w1)
                      else (Inr (), fire [(Created, u)] w1))))"

definition delete :: "uri \<Rightarrow> deleteOptions \<Rightarrow> 'r world \<Rightarrow> (fileSystemError + unit) \<times> 'r world" where
  "delete u options w =
     (case parseUri u of
        (spriteName, pth) \<Rightarrow>
          (case getSprite spriteName w of
             (Inl e, w0) \<Rightarrow> (Inl e, w0)
           | (Inr sprite, w0) \<Rightarrow>
               catch_unavailable
                 (let flags = (if recursive options then ''-rf'' else ''-f'') in
                  case exec sprite (rm_cmd flags pth) w0 of
                    (Inl msg, w1) \<Rightarrow> (Inl msg, w1)
                  | (Inr result, w1) \<Rightarrow> (Inr (), fire [(Deleted, u)] w1))))"

definition rename_check ::
  "'r sprite \<Rightarrow> uri \<Rightarrow> string \<Rightarrow> overwriteOption \<Rightarrow> 'r world \<Rightarrow> (thrown + unit) \<times> 'r world" where
  \<comment> \<open>the \<^verbatim>\<open>if (!options.overwrite)\<close> block\<close>
  "rename_check sprite newUri newPath options w =
     (if \<not> overwrite options then
        (case exec sprite (test_e_cmd newPath) w of
           (Inl msg, w1) \<Rightarrow> (Inl (Error msg), w1)
         | (Inr existsResult, w1) \<Rightarrow>
             if trim (toStr (stdout existsResult)) = ''EXISTS''
             then (Inl (FsError (FileExists newUri)), w1)
             else (Inr (), w1))
      else (Inr (), w))"

definition rename_try ::
  "'r sprite \<Rightarrow> uri \<Rightarrow> uri \<Rightarrow> string \<Rightarrow> string \<Rightarrow> overwriteOption \<Rightarrow> 'r world
     \<Rightarrow> (thrown + unit) \<times> 'r world" where
  "rename_try sprite oldUri newUri oldPath newPath options w =
     (case rename_check sprite newUri newPath options w of
        (Inl e, w1) \<Rightarrow> (Inl e, w1)
      | (Inr checked, w1) \<Rightarrow>
          (case exec sprite (mv_cmd oldPath newPath) w1 of
             (Inl msg, w2) \<Rightarrow> (Inl (Error msg), w2)
           | (Inr result, w2) \<Rightarrow>
               (Inr (), fire [(Deleted, oldUri), (Created, newUri)] w2)))"

definition rename ::
  "uri \<Rightarrow> uri \<Rightarrow> overwriteOption \<Rightarrow> 'r world \<Rightarrow> (fileSystemError + unit) \<times> 'r world" where
  "rename oldUri newUri options w =
     (case parseUri oldUri of
        (oldSprite, oldPath) \<Rightarrow>
          (case parseUri newUri of
             (newSprite, newPath) \<Rightarrow>
               if oldSprite \<noteq> newSprite
               then (Inl (NoPermissions ''Cannot move files between different Sprites''), w)
               else
                 (case getSprite oldSprite w of
                    (Inl e, w0) \<Rightarrow> (Inl e, w0)
                  | (Inr sprite, w0) \<Rightarrow>
                      catch_rethrow
                        (rename_try sprite oldUri newUri oldPath newPath options w0))))"

subsection \<open>A scripted remote\<close>

text \<open>
  For concrete runs: a remote whose state is the list of replies it will give, one per
  command, whatever the command; when the list is used up the transport fails.
\<close>

definition scripted :: "((string + exec_result) list) spritesClient" where
  "scripted spriteName cmd replies =
     (case replies of
        [] \<Rightarrow> (Inl ''connection closed'', [])
      | reply # rest \<Rightarrow> (reply, rest))"

definition out :: "string \<Rightarrow> string + exec_result" where
  \<comment> \<open>a reply with this standard output and nothing on standard error\<close>
  "out s = Inr \<lparr>stdout = s, stderr = []\<rparr>"

definition session :: "'r spritesClient \<Rightarrow> 'r \<Rightarrow> 'r world" where
  \<comment> \<open>a provider just bound to a client, and a remote in the given state\<close>
  "session c r =
     \<lparr>client = Some c, spriteCache = Map.empty, fired = [], remote = r, issued = [],
      clock = (\<lambda>n. 1700000000000 + int n), readings = 0,
      atob_error = (\<lambda>dat. ''Invalid character'')\<rparr>"

subsection \<open>A remote that keeps files\<close>

text \<open>
  What exists on the target is a matter of the remote. This remote is a store of regular
  files (their bytes) and directories by name, each with the two times that \<^verbatim>\<open>stat\<close>
  prints, and a clock. It runs the command lines of the provider and no others. It reads
  each quoted word as the shell does (\<open>dq_read\<close>); a line that it cannot read that way
  (an expansion in a word, a quote that closes early or not at all) it does not run.
  A command that fails returns, with its message on standard error and nothing on
  standard output: as in the transport interface of the specification, where a
  non-zero exit status of the remote command shows in the standard error only, this
  remote never rejects a call.

  Names are compared as written: the store knows no \<^verbatim>\<open>.\<close> and \<^verbatim>\<open>..\<close>, no doubled
  slash, no symbolic link and no permissions. The root is always there. A file is
  created only in a directory that is there, and \<^verbatim>\<open>mkdir -p\<close> makes the directories
  above the one it is given.
\<close>

datatype node = Reg "byte list" nat nat | Dir nat nat

record store =
  nodes :: "string \<rightharpoonup> node"
  now :: nat

fun strip_prefix :: "string \<Rightarrow> string \<Rightarrow> string option" where
  "strip_prefix [] s = Some s"
| "strip_prefix (c # cs) [] = None"
| "strip_prefix (c # cs) (d # ds) = (if c = d then strip_prefix cs ds else None)"

definition quoted_after :: "string \<Rightarrow> string \<Rightarrow> (string \<times> string) option" where
  "quoted_after pre s =
     (case strip_prefix pre s of
        None \<Rightarrow> None
      | Some t \<Rightarrow>
          (case dq_read [] t of
             Word a rest \<Rightarrow> Some (a, rest)
           | Expansion \<Rightarrow> None
           | Unclosed \<Rightarrow> None))"

datatype sh_cmd =
    Stat string
  | TestE_or string
  | TestE string
  | TestF string
  | MkdirP string
  | Base64D string string
  | Base64 string
  | Rm bool string
  | Mv string string

definition one_word :: "string \<Rightarrow> string \<Rightarrow> (string \<Rightarrow> sh_cmd) \<Rightarrow> string \<Rightarrow> sh_cmd option" where
  "one_word pre post mk cmd =
     (case quoted_after pre cmd of
        None \<Rightarrow> None
      | Some (a, rest) \<Rightarrow> if rest = post then Some (mk a) else None)"

definition two_words ::
  "string \<Rightarrow> string \<Rightarrow> string \<Rightarrow> (string \<Rightarrow> string \<Rightarrow> sh_cmd) \<Rightarrow> string \<Rightarrow> sh_cmd option" where
  "two_words pre mid post mk cmd =
     (case quoted_after pre cmd of
        None \<Rightarrow> None
      | Some (a, rest) \<Rightarrow>
          (case quoted_after mid rest of
             None \<Rightarrow> None
           | Some (b, rest') \<Rightarrow> if rest' = post then Some (mk a b) else None))"

fun first_of :: "('a \<Rightarrow> 'b option) list \<Rightarrow> 'a \<Rightarrow> 'b option" where
  "first_of [] x = None"
| "first_of (f # fs) x = (case f x of None \<Rightarrow> first_of fs x | Some y \<Rightarrow> Some y)"

definition sh_parse :: "string \<Rightarrow> sh_cmd option" where
  \<open>sh_parse =
     first_of
       [one_word ''stat -c '%F|%s|%Y|%X' "'' '' 2>/dev/null || echo "NOTFOUND"'' Stat,
        one_word ''test -e "'' '' && echo EXISTS || echo NOTEXISTS'' TestE_or,
        one_word ''test -e "'' '' && echo EXISTS'' TestE,
        one_word ''test -f "'' '' && echo EXISTS'' TestF,
        one_word ''mkdir -p "'' [] MkdirP,
        two_words ''echo "'' '' | base64 -d > "'' [] Base64D,
        one_word ''base64 "'' '' 2>/dev/null'' Base64,
        one_word ''rm -f "'' [] (Rm False),
        one_word ''rm -rf "'' [] (Rm True),
        two_words ''mv "'' '' "'' [] Mv]\<close>

definition digit :: "nat \<Rightarrow> char" where
  "digit n = ''0123456789'' ! (n mod 10)"

fun decimal :: "nat \<Rightarrow> string" where
  "decimal n = (if n < 10 then [digit n] else decimal (n div 10) @ [digit n])"

fun wrap76 :: "string \<Rightarrow> string" where
  "wrap76 s = (if s = [] then [] else take 76 s @ CHR 0x0A # wrap76 (drop 76 s))"

declare decimal.simps [simp del] wrap76.simps [simp del]

definition stat_line :: "node \<Rightarrow> string" where
  "stat_line n =
     (case n of
        Reg bs m a \<Rightarrow>
          (if bs = [] then ''regular empty file'' else ''regular file'')
          @ ''|'' @ decimal (length bs) @ ''|'' @ decimal m @ ''|'' @ decimal a @ [CHR 0x0A]
      | Dir m a \<Rightarrow> ''directory|4096|'' @ decimal m @ ''|'' @ decimal a @ [CHR 0x0A])"

definition is_dir :: "node option \<Rightarrow> bool" where
  "is_dir n = (case n of Some (Dir m a) \<Rightarrow> True | _ \<Rightarrow> False)"

definition is_reg :: "node option \<Rightarrow> bool" where
  "is_reg n = (case n of Some (Reg bs m a) \<Rightarrow> True | _ \<Rightarrow> False)"

definition ancestors :: "string \<Rightarrow> string list" where
  \<comment> \<open>the names of the directories above a name: what stands before each of its slashes\<close>
  "ancestors p = map (\<lambda>i. take i p) (filter (\<lambda>i. p ! i = CHR ''/'') [1..<length p])"

definition dir_at :: "store \<Rightarrow> string \<Rightarrow> bool" where
  \<comment> \<open>the root is always there\<close>
  "dir_at s d \<longleftrightarrow> d = ''/'' \<or> is_dir (nodes s d)"

definition parent_there :: "store \<Rightarrow> string \<Rightarrow> bool" where
  \<comment> \<open>a name with no slash, or only a leading one, lies in a directory that is always there\<close>
  "parent_there s p \<longleftrightarrow>
     (let i = lastIndexOf p (CHR ''/'') in i \<le> 0 \<or> dir_at s (take (nat i) p))"

definition under :: "string \<Rightarrow> string \<Rightarrow> bool" where
  "under d q \<longleftrightarrow> q \<noteq> d \<and> starts_with q (if endsWith d (CHR ''/'') then d else d @ ''/'')"

definition into :: "string \<Rightarrow> string \<Rightarrow> string" where
  "into d a =
     (if endsWith d (CHR ''/'') then d else d @ ''/'')
     @ drop (nat (lastIndexOf a (CHR ''/'') + 1)) a"

definition said :: "string \<Rightarrow> exec_result" where
  "said s = \<lparr>stdout = s, stderr = []\<rparr>"

definition refused :: "string \<Rightarrow> exec_result" where
  "refused s = \<lparr>stdout = [], stderr = s\<rparr>"

definition sh_run :: "sh_cmd \<Rightarrow> store \<Rightarrow> exec_result \<times> store" where
  "sh_run c s =
     (case c of
        Stat p \<Rightarrow>
          (said (case nodes s p of None \<Rightarrow> ''NOTFOUND\<newline>'' | Some n \<Rightarrow> stat_line n), s)
      | TestE_or p \<Rightarrow> (said (if nodes s p = None then ''NOTEXISTS\<newline>'' else ''EXISTS\<newline>''), s)
      | TestE p \<Rightarrow> (said (if nodes s p = None then [] else ''EXISTS\<newline>''), s)
      | TestF p \<Rightarrow>
          (said (case nodes s p of Some (Reg bs m a) \<Rightarrow> ''EXISTS\<newline>'' | _ \<Rightarrow> []), s)
      | MkdirP d \<Rightarrow>
          (if d = ''/'' then (said [], s)
           else if list_ex (\<lambda>a. is_reg (nodes s a)) (ancestors d @ [d])
           then (refused ''mkdir: cannot create directory: Not a directory'', s)
           else
             (said [],
              s\<lparr>nodes :=
                  (\<lambda>q. if q \<in> set (ancestors d @ [d]) \<and> nodes s q = None
                       then Some (Dir (now s) (now s)) else nodes s q)\<rparr>))
      | Base64D x p \<Rightarrow>
          (if p = [] \<or> endsWith p (CHR ''/'') \<or> is_dir (nodes s p)
           then (refused ''sh: cannot create: Is a directory'', s)
           else if \<not> parent_there s p
           then (refused ''sh: cannot create: Directory nonexistent'', s)
           else
             (case base64_d (x @ [CHR 0x0A]) of
                Some bs \<Rightarrow> (said [], s\<lparr>nodes := (nodes s)(p \<mapsto> Reg bs (now s) (now s))\<rparr>)
              | None \<Rightarrow>
                  (refused ''base64: invalid input'',
                   s\<lparr>nodes := (nodes s)(p \<mapsto> Reg [] (now s) (now s))\<rparr>)))
      | Base64 p \<Rightarrow>
          (said (case nodes s p of Some (Reg bs m a) \<Rightarrow> wrap76 (toBase64 bs) | _ \<Rightarrow> []), s)
      | Rm r p \<Rightarrow>
          (if r
           then (said [], s\<lparr>nodes := (\<lambda>q. if q = p \<or> under p q then None else nodes s q)\<rparr>)
           else if is_dir (nodes s p)
           then (refused ''rm: cannot remove: Is a directory'', s)
           else (said [], s\<lparr>nodes := (nodes s)(p := None)\<rparr>))
      | Mv a b \<Rightarrow>
          (let t = (if is_dir (nodes s b) then into b a else b) in
           if nodes s a = None then (refused ''mv: cannot stat: No such file or directory'', s)
           else if t = a \<or> under a t then (refused ''mv: cannot move to itself'', s)
           else if \<not> parent_there s t
           then (refused ''mv: cannot move: No such file or directory'', s)
           else if is_dir (nodes s a) \<and> nodes s t \<noteq> None
           then (refused ''mv: cannot overwrite'', s)
           else if is_dir (nodes s t) then (refused ''mv: cannot overwrite directory'', s)
           else
             (said [],
              s\<lparr>nodes :=
                  (\<lambda>q. if q = t then nodes s a
                       else if under t q then nodes s (a @ drop (length t) q)
                       else if q = a \<or> under a q then None
                       else nodes s q)\<rparr>)))"

definition sh :: "store sprite" where
  "sh cmd s =
     (case sh_parse cmd of
        None \<Rightarrow> (Inr (refused ''sh: not run''), s)
      | Some c \<Rightarrow> (case sh_run c s of (result, s') \<Rightarrow> (Inr result, s')))"

definition store_client :: "store spritesClient" where
  "store_client spriteName = sh"

section \<open>Properties\<close>

subsection \<open>Paths in commands\<close>

lemma dq_read_plain:
  "shell_plain s \<Longrightarrow> dq_read acc (s @ CHR 0x22 # rest) = Word (rev acc @ s) rest"
  by (induction s arbitrary: acc) (simp_all add: shell_plain_def)

lemma reads_quoted_plain:
  "shell_plain s \<Longrightarrow> reads_quoted pre s rest (pre @ s @ CHR 0x22 # rest)"
  by (simp add: reads_quoted_def dq_read_plain)

lemma shell_plain_parentDir: "shell_plain pth \<Longrightarrow> shell_plain (parentDir pth)"
proof -
  assume plain: "shell_plain pth"
  have "shell_plain (take n pth)" for n
    using plain by (auto simp: shell_plain_def list_all_iff dest: in_set_takeD)
  moreover have "shell_plain ''/''"
    by (simp add: shell_plain_def)
  ultimately show ?thesis
    by (simp add: parentDir_def substring_0_def Let_def)
qed

lemma stat_cmd_plain:
  \<open>shell_plain pth \<Longrightarrow>
   reads_quoted ''stat -c '%F|%s|%Y|%X' "'' pth '' 2>/dev/null || echo "NOTFOUND"'' (stat_cmd pth)\<close>
  using reads_quoted_plain [of pth \<open>''stat -c '%F|%s|%Y|%X' "''\<close>
      \<open>'' 2>/dev/null || echo "NOTFOUND"''\<close>]
  by (simp add: stat_cmd_def)

lemma ls_cmd_plain:
  \<open>shell_plain pth \<Longrightarrow> reads_quoted ''ls -1ApL "'' pth '' 2>/dev/null'' (ls_cmd pth)\<close>
  using reads_quoted_plain [of pth \<open>''ls -1ApL "''\<close> \<open>'' 2>/dev/null''\<close>]
  by (simp add: ls_cmd_def)

lemma base64_cmd_plain:
  \<open>shell_plain pth \<Longrightarrow> reads_quoted ''base64 "'' pth '' 2>/dev/null'' (base64_cmd pth)\<close>
  using reads_quoted_plain [of pth \<open>''base64 "''\<close> \<open>'' 2>/dev/null''\<close>]
  by (simp add: base64_cmd_def)

lemma test_f_cmd_plain:
  \<open>shell_plain pth \<Longrightarrow> reads_quoted ''test -f "'' pth '' && echo EXISTS'' (test_f_cmd pth)\<close>
  using reads_quoted_plain [of pth \<open>''test -f "''\<close> \<open>'' && echo EXISTS''\<close>]
  by (simp add: test_f_cmd_def)

lemma exists_cmd_plain:
  \<open>shell_plain pth \<Longrightarrow>
   reads_quoted ''test -e "'' pth '' && echo EXISTS || echo NOTEXISTS'' (exists_cmd pth)\<close>
  using reads_quoted_plain [of pth \<open>''test -e "''\<close> \<open>'' && echo EXISTS || echo NOTEXISTS''\<close>]
  by (simp add: exists_cmd_def)

lemma mkdir_cmd_plain:
  \<open>shell_plain dir \<Longrightarrow> reads_quoted ''mkdir -p "'' dir [] (mkdir_cmd dir)\<close>
  using reads_quoted_plain [of dir \<open>''mkdir -p "''\<close> \<open>[]\<close>]
  by (simp add: mkdir_cmd_def)

lemma write_cmd_plain:
  \<open>shell_plain pth \<Longrightarrow>
   reads_quoted (''echo "'' @ b64 @ ''" | base64 -d > "'') pth [] (write_cmd b64 pth)\<close>
  using reads_quoted_plain [of pth \<open>''echo "'' @ b64 @ ''" | base64 -d > "''\<close> \<open>[]\<close>]
  by (simp add: write_cmd_def)

lemma rm_cmd_plain:
  \<open>shell_plain pth \<Longrightarrow> reads_quoted (''rm '' @ flags @ '' "'') pth [] (rm_cmd flags pth)\<close>
  using reads_quoted_plain [of pth \<open>''rm '' @ flags @ '' "''\<close> \<open>[]\<close>]
  by (simp add: rm_cmd_def)

lemma test_e_cmd_plain:
  \<open>shell_plain pth \<Longrightarrow> reads_quoted ''test -e "'' pth '' && echo EXISTS'' (test_e_cmd pth)\<close>
  using reads_quoted_plain [of pth \<open>''test -e "''\<close> \<open>'' && echo EXISTS''\<close>]
  by (simp add: test_e_cmd_def)

lemma mv_cmd_plain_old:
  \<open>shell_plain oldPath \<Longrightarrow>
   reads_quoted ''mv "'' oldPath ('' "'' @ newPath @ ''"'') (mv_cmd oldPath newPath)\<close>
  using reads_quoted_plain [of oldPath \<open>''mv "''\<close> \<open>'' "'' @ newPath @ ''"''\<close>]
  by (simp add: mv_cmd_def)

lemma mv_cmd_plain_new:
  \<open>shell_plain newPath \<Longrightarrow>
   reads_quoted (''mv "'' @ oldPath @ ''" "'') newPath [] (mv_cmd oldPath newPath)\<close>
  using reads_quoted_plain [of newPath \<open>''mv "'' @ oldPath @ ''" "''\<close> \<open>[]\<close>]
  by (simp add: mv_cmd_def)

subsection \<open>Base64: what is written is read back\<close>

lemma index_of_nth:
  "distinct xs \<Longrightarrow> n < length xs \<Longrightarrow> index_of (xs ! n) xs = Some n"
proof (induction xs arbitrary: n)
  case Nil
  then show ?case by simp
next
  case (Cons x xs)
  show ?case
  proof (cases n)
    case 0
    then show ?thesis by simp
  next
    case (Suc m)
    with Cons.prems have "xs ! m \<in> set xs" "x \<notin> set xs" by auto
    then have "xs ! m \<noteq> x" by auto
    with Suc Cons show ?thesis by simp
  qed
qed

lemma length_base64_alphabet: "length base64_alphabet = 64"
  by (simp add: base64_alphabet_def)

lemma distinct_base64_alphabet: "distinct base64_alphabet"
  by (simp add: base64_alphabet_def)

lemma b64_index_char: "n < 64 \<Longrightarrow> b64_index (b64_char n) = Some n"
  using index_of_nth [OF distinct_base64_alphabet, of n]
  by (simp add: b64_index_def b64_char_def length_base64_alphabet)

lemma base64_alphabet_chars:
  "c \<in> set base64_alphabet \<Longrightarrow>
     c \<noteq> CHR ''='' \<and> \<not> ascii_space c \<and> \<not> js_space c \<and> c \<noteq> CHR 0x0A"
  by (auto simp: base64_alphabet_def ascii_space_def js_space_def)

lemma b64_char_mem: "b64_char n \<in> set base64_alphabet"
  by (simp add: b64_char_def length_base64_alphabet)

lemmas b64_char_props = base64_alphabet_chars [OF b64_char_mem]

lemma unat_byte: "unat (b :: byte) < 256"
  using unsigned_less [of b] by simp

lemma byte_div16: "unat (b :: byte) div 16 < 16"
  using unat_byte [of b] by simp

lemma byte_div64: "unat (b :: byte) div 64 < 4"
  using unat_byte [of b] by simp

lemma byte_div4: "unat (b :: byte) div 4 < 64"
  using unat_byte [of b] by simp

lemma sextet_lo: "unat (a :: byte) mod 4 * 16 < 64"
proof -
  have "unat a mod 4 < 4" by simp
  then show ?thesis by linarith
qed

lemma sextet_mid: "unat (a :: byte) mod 4 * 16 + unat (b :: byte) div 16 < 64"
proof -
  have "unat a mod 4 < 4" by simp
  with byte_div16 [of b] show ?thesis by linarith
qed

lemma sextet_lo2: "unat (b :: byte) mod 16 * 4 < 64"
proof -
  have "unat b mod 16 < 16" by simp
  then show ?thesis by linarith
qed

lemma sextet_mid2: "unat (b :: byte) mod 16 * 4 + unat (c :: byte) div 64 < 64"
proof -
  have "unat b mod 16 < 16" by simp
  with byte_div64 [of c] show ?thesis by linarith
qed

lemma sextet_last: "unat (c :: byte) mod 64 < 64"
  by simp

lemma octet_1: "unat a div 4 * 4 + (unat a mod 4 * 16 + unat (b :: byte) div 16) div 16 = unat a"
  using byte_div16 [of b] by simp

lemma octet_1_last: "unat a div 4 * 4 + (unat a mod 4 * 16) div 16 = unat a"
  by simp

lemma octet_2:
  "(unat a mod 4 * 16 + unat (b :: byte) div 16) mod 16 * 16
     + (unat b mod 16 * 4 + unat (c :: byte) div 64) div 4 = unat b"
  using byte_div16 [of b] byte_div64 [of c] by simp

lemma octet_2_last:
  "(unat a mod 4 * 16 + unat (b :: byte) div 16) mod 16 * 16 + (unat b mod 16 * 4) div 4 = unat b"
  using byte_div16 [of b] by simp

lemma octet_3: "(unat b mod 16 * 4 + unat (c :: byte) div 64) mod 4 * 64 + unat c mod 64 = unat c"
  using byte_div64 [of c] by simp

lemma sextets_of_bound: "\<forall>s \<in> set (sextets_of bs). s < 64"
  by (induction bs rule: sextets_of.induct)
    (simp_all only: sextets_of.simps list.set ball_simps ball_Un set_append
       byte_div4 sextet_lo sextet_mid sextet_lo2 sextet_mid2 sextet_last simp_thms)

lemma decode_sextets_of: "decode_sextets (sextets_of bs) = map unat bs"
  by (induction bs rule: sextets_of.induct)
    (simp_all only: sextets_of.simps decode_sextets.simps append_Cons append_Nil list.map
       octet_1 octet_1_last octet_2 octet_2_last octet_3)

lemma length_sextets_of: "length (sextets_of bs) mod 4 \<noteq> 1"
  by (induction bs rule: sextets_of.induct) simp_all

lemma length_toBase64: "length (toBase64 bs) mod 4 = 0"
  by (induction bs rule: toBase64.induct) simp_all

lemma toBase64_Nil_iff: "toBase64 bs = [] \<longleftrightarrow> bs = []"
  by (cases bs rule: toBase64.cases) simp_all

lemma filter_toBase64:
  assumes "\<And>c. c \<in> set base64_alphabet \<Longrightarrow> P c" and "P (CHR ''='')"
  shows "filter P (toBase64 bs) = toBase64 bs"
  using assms by (induction bs rule: toBase64.induct) (simp_all add: b64_char_mem)

lemma strip_padding_append:
  assumes "length pre mod 4 = 0" and "length s mod 4 = 0" and "s \<noteq> []"
  shows "strip_padding (pre @ s) = pre @ strip_padding s"
proof -
  from assms(2,3) have "4 \<le> length s"
    by (cases s) (auto simp: mod_eq_0_iff_dvd dest: dvd_imp_le)
  then have "butlast s \<noteq> []"
    by (cases s) auto
  with assms show ?thesis
    by (simp add: strip_padding_def butlast_append mod_add_eq [symmetric] last_append)
qed

lemma b64_char_not_pad: "b64_char n \<noteq> CHR ''=''"
  using b64_char_props [of n] by simp

lemma strip_padding_toBase64: "strip_padding (toBase64 bs) = map b64_char (sextets_of bs)"
proof (induction bs rule: toBase64.induct)
  case 1
  then show ?case by (simp add: strip_padding_def)
next
  case (2 a)
  then show ?case by (simp add: strip_padding_def b64_char_not_pad)
next
  case (3 a b)
  then show ?case by (simp add: strip_padding_def b64_char_not_pad)
next
  case (4 a b c rest)
  show ?case
  proof (cases "rest = []")
    case True
    then show ?thesis by (simp add: strip_padding_def b64_char_not_pad)
  next
    case False
    then have "toBase64 rest \<noteq> []" by (simp add: toBase64_Nil_iff)
    then have "strip_padding ([b64_char (unat a div 4), b64_char (unat a mod 4 * 16 + unat b div 16),
        b64_char (unat b mod 16 * 4 + unat c div 64), b64_char (unat c mod 64)] @ toBase64 rest)
      = [b64_char (unat a div 4), b64_char (unat a mod 4 * 16 + unat b div 16),
        b64_char (unat b mod 16 * 4 + unat c div 64), b64_char (unat c mod 64)]
        @ strip_padding (toBase64 rest)"
      by (intro strip_padding_append) (simp_all add: length_toBase64)
    with 4 show ?thesis by simp
  qed
qed

lemma those_b64_index:
  "\<forall>s \<in> set ss. s < 64 \<Longrightarrow> those (map b64_index (map b64_char ss)) = Some ss"
  by (induction ss) (simp_all add: b64_index_char)

lemma filter_ascii_space_toBase64:
  "filter (\<lambda>c. \<not> ascii_space c) (toBase64 bs) = toBase64 bs"
proof (rule filter_toBase64)
  show "\<not> ascii_space (CHR ''='')" by (simp add: ascii_space_def)
  show "\<not> ascii_space c" if "c \<in> set base64_alphabet" for c
    using base64_alphabet_chars [OF that] by blast
qed

lemma filter_newline_toBase64:
  "filter (\<lambda>c. c \<noteq> CHR 0x0A) (toBase64 bs) = toBase64 bs"
proof (rule filter_toBase64)
  show "CHR ''='' \<noteq> CHR 0x0A" by simp
  show "c \<noteq> CHR 0x0A" if "c \<in> set base64_alphabet" for c
    using base64_alphabet_chars [OF that] by blast
qed

lemma strip_space_toBase64: "strip_space (toBase64 bs) = toBase64 bs"
  unfolding strip_space_def
proof (rule filter_toBase64)
  show "\<not> js_space (CHR ''='')" by (simp add: js_space_def)
  show "\<not> js_space c" if "c \<in> set base64_alphabet" for c
    using base64_alphabet_chars [OF that] by blast
qed

lemma those_sextets_of:
  "those (map b64_index (map b64_char (sextets_of bs))) = Some (sextets_of bs)"
  by (rule those_b64_index [OF sextets_of_bound])

lemma decode_toBase64:
  "those (map b64_index (strip_padding (toBase64 bs))) = Some (sextets_of bs)"
  by (simp only: strip_padding_toBase64 those_b64_index [OF sextets_of_bound])

lemma atob_toBase64: "atob (toBase64 bs) = Some (map char_of (map unat bs))"
  using length_sextets_of [of bs]
  by (simp add: atob_def filter_ascii_space_toBase64 those_sextets_of decode_sextets_of
      strip_padding_toBase64 del: map_map)

lemma charCodeAt_char_of: "charCodeAt (char_of (unat (b :: byte))) = b"
  using unat_byte [of b] by (simp add: charCodeAt_def)

lemma charCodeAt_bytes: "map charCodeAt (map char_of (map unat bs)) = (bs :: byte list)"
  by (induction bs) (simp_all add: charCodeAt_char_of)

lemma of_nat_bytes: "map of_nat (map unat bs) = (bs :: byte list)"
  by (induction bs) simp_all

lemma base64_d_toBase64: "base64_d (toBase64 bs @ [CHR 0x0A]) = Some bs"
  by (simp add: base64_d_def filter_newline_toBase64 length_toBase64 decode_toBase64
      decode_sextets_of of_nat_bytes del: map_map)

subsection \<open>The remote that keeps files\<close>

lemma sh_parse_stat: "shell_plain p \<Longrightarrow> sh_parse (stat_cmd p) = Some (Stat p)"
  by (simp add: sh_parse_def one_word_def two_words_def quoted_after_def stat_cmd_def
      dq_read_plain)

lemma sh_parse_exists: "shell_plain p \<Longrightarrow> sh_parse (exists_cmd p) = Some (TestE_or p)"
  by (simp add: sh_parse_def one_word_def two_words_def quoted_after_def exists_cmd_def
      dq_read_plain)

lemma sh_parse_test_e: "shell_plain p \<Longrightarrow> sh_parse (test_e_cmd p) = Some (TestE p)"
  by (simp add: sh_parse_def one_word_def two_words_def quoted_after_def test_e_cmd_def
      dq_read_plain)

lemma sh_parse_test_f: "shell_plain p \<Longrightarrow> sh_parse (test_f_cmd p) = Some (TestF p)"
  by (simp add: sh_parse_def one_word_def two_words_def quoted_after_def test_f_cmd_def
      dq_read_plain)

lemma sh_parse_mkdir: "shell_plain p \<Longrightarrow> sh_parse (mkdir_cmd p) = Some (MkdirP p)"
  by (simp add: sh_parse_def one_word_def two_words_def quoted_after_def mkdir_cmd_def
      dq_read_plain)

lemma sh_parse_write:
  "shell_plain x \<Longrightarrow> shell_plain p \<Longrightarrow> sh_parse (write_cmd x p) = Some (Base64D x p)"
  by (simp add: sh_parse_def one_word_def two_words_def quoted_after_def write_cmd_def
      dq_read_plain)

lemma sh_parse_base64: "shell_plain p \<Longrightarrow> sh_parse (base64_cmd p) = Some (Base64 p)"
  by (simp add: sh_parse_def one_word_def two_words_def quoted_after_def base64_cmd_def
      dq_read_plain)

lemma sh_parse_rm:
  "shell_plain p \<Longrightarrow> sh_parse (rm_cmd ''-f'' p) = Some (Rm False p)"
  "shell_plain p \<Longrightarrow> sh_parse (rm_cmd ''-rf'' p) = Some (Rm True p)"
  by (simp_all add: sh_parse_def one_word_def two_words_def quoted_after_def rm_cmd_def
      dq_read_plain)

lemma sh_parse_mv:
  "shell_plain a \<Longrightarrow> shell_plain b \<Longrightarrow> sh_parse (mv_cmd a b) = Some (Mv a b)"
  by (simp add: sh_parse_def one_word_def two_words_def quoted_after_def mv_cmd_def
      dq_read_plain)

lemma lastIndexOf_less: "lastIndexOf s c < int (length s)"
  by (induction s) (simp_all add: Let_def)

lemma parentDir_fixed: "parentDir pth = pth \<Longrightarrow> pth = ''/''"
proof -
  assume eq: "parentDir pth = pth"
  show ?thesis
  proof (cases "substring_0 pth (lastIndexOf pth (CHR ''/'')) = []")
    case True
    with eq show ?thesis by (simp add: parentDir_def)
  next
    case False
    with eq have "take (nat (lastIndexOf pth (CHR ''/''))) pth = pth"
      by (simp add: parentDir_def substring_0_def)
    then have "length pth \<le> nat (lastIndexOf pth (CHR ''/''))"
      by (metis length_take min.cobounded2 min_def nat_le_linear take_all_iff)
    with lastIndexOf_less [of pth "CHR ''/''"] False show ?thesis
      by (cases pth) (simp_all add: substring_0_def)
  qed
qed

lemma shell_plain_toBase64: "shell_plain (toBase64 bs)"
proof -
  have "c \<noteq> CHR 0x22 \<and> c \<noteq> CHR ''$'' \<and> c \<noteq> CHR 0x60 \<and> c \<noteq> CHR 0x5C"
    if "c \<in> set base64_alphabet" for c
    using that by (auto simp: base64_alphabet_def)
  then have "filter (\<lambda>c. c \<noteq> CHR 0x22 \<and> c \<noteq> CHR ''$'' \<and> c \<noteq> CHR 0x60 \<and> c \<noteq> CHR 0x5C)
      (toBase64 bs) = toBase64 bs"
    by (intro filter_toBase64) simp_all
  then show ?thesis
    by (simp add: shell_plain_def list_all_iff filter_id_conv)
qed

lemma strip_space_wrap76: "strip_space (wrap76 s) = strip_space s"
proof (induction s rule: wrap76.induct)
  case (1 s)
  show ?case
  proof (cases "s = []")
    case True
    then show ?thesis by (simp add: wrap76.simps)
  next
    case False
    have "strip_space (wrap76 s) = strip_space (take 76 s) @ strip_space (wrap76 (drop 76 s))"
      using False by (subst wrap76.simps) (simp add: strip_space_def js_space_def)
    also have "\<dots> = strip_space (take 76 s) @ strip_space (drop 76 s)"
      using 1 [OF False] by simp
    also have "\<dots> = strip_space (take 76 s @ drop 76 s)"
      unfolding strip_space_def by (rule filter_append [symmetric])
    finally show ?thesis by simp
  qed
qed

lemma trim_EXISTS: "trim ''EXISTS\<newline>'' = ''EXISTS''" "trim ''NOTEXISTS\<newline>'' = ''NOTEXISTS''"
  "trim [] = []" "trim ''NOTFOUND\<newline>'' = ''NOTFOUND''"
  by (simp_all add: trim_def js_space_def)

lemma sh_exists:
  "shell_plain p \<Longrightarrow>
   sh (exists_cmd p) s =
     (Inr (said (if nodes s p = None then ''NOTEXISTS\<newline>'' else ''EXISTS\<newline>'')), s)"
  by (simp add: sh_def sh_parse_exists sh_run_def)

lemma sh_test_e:
  "shell_plain p \<Longrightarrow>
   sh (test_e_cmd p) s = (Inr (said (if nodes s p = None then [] else ''EXISTS\<newline>'')), s)"
  by (simp add: sh_def sh_parse_test_e sh_run_def)

lemma sh_test_f:
  "shell_plain p \<Longrightarrow>
   sh (test_f_cmd p) s =
     (Inr (said (case nodes s p of Some (Reg bs m a) \<Rightarrow> ''EXISTS\<newline>'' | _ \<Rightarrow> [])), s)"
  by (simp add: sh_def sh_parse_test_f sh_run_def)

lemma sh_stat:
  "shell_plain p \<Longrightarrow>
   sh (stat_cmd p) s =
     (Inr (said (case nodes s p of None \<Rightarrow> ''NOTFOUND\<newline>'' | Some n \<Rightarrow> stat_line n)), s)"
  by (simp add: sh_def sh_parse_stat sh_run_def)

lemma sh_mkdir:
  assumes "shell_plain d"
    and "d \<noteq> ''/'' \<Longrightarrow> \<forall>a \<in> set (ancestors d @ [d]). \<not> is_reg (nodes s a)"
  shows "\<exists>s'. sh (mkdir_cmd d) s = (Inr (said []), s') \<and> dir_at s' d
      \<and> (\<forall>q. q \<notin> set (ancestors d @ [d]) \<longrightarrow> nodes s' q = nodes s q) \<and> now s' = now s"
proof (cases "d = ''/''")
  case True
  with assms(1) show ?thesis
    by (simp add: sh_def sh_parse_mkdir sh_run_def dir_at_def)
next
  case False
  have "\<not> list_ex (\<lambda>a. is_reg (nodes s a)) (ancestors d @ [d])"
    using assms(2) [OF False] by (simp add: list_ex_iff)
  moreover have "\<not> is_reg (nodes s d)"
    using assms(2) [OF False] by simp
  then have "is_dir (if nodes s d = None then Some (Dir (now s) (now s)) else nodes s d)"
    by (auto simp: is_reg_def is_dir_def split: option.splits node.splits)
  ultimately show ?thesis
    using assms(1) False
    by (simp add: sh_def sh_parse_mkdir sh_run_def dir_at_def)
qed

lemma sh_write:
  "shell_plain p \<Longrightarrow> p \<noteq> [] \<Longrightarrow> \<not> endsWith p (CHR ''/'') \<Longrightarrow> \<not> is_dir (nodes s p) \<Longrightarrow>
   parent_there s p \<Longrightarrow>
   sh (write_cmd (toBase64 bs) p) s =
     (Inr (said []), s\<lparr>nodes := (nodes s)(p \<mapsto> Reg bs (now s) (now s))\<rparr>)"
  by (simp add: sh_def sh_parse_write shell_plain_toBase64 sh_run_def base64_d_toBase64)

lemma lastIndexOf_nth:
  "0 \<le> lastIndexOf s c \<Longrightarrow> s ! nat (lastIndexOf s c) = c"
proof (induction s)
  case Nil
  then show ?case by simp
next
  case (Cons x xs)
  show ?case
  proof (cases "0 \<le> lastIndexOf xs c")
    case True
    then have "nat (lastIndexOf xs c + 1) = Suc (nat (lastIndexOf xs c))"
      by simp
    with True Cons.IH show ?thesis
      by (simp add: Let_def)
  next
    case False
    with Cons.prems show ?thesis
      by (simp add: Let_def split: if_splits)
  qed
qed

lemma ancestors_take:
  assumes "0 < i" and "i < length p" and "p ! i = CHR ''/''"
  shows "set (ancestors (take i p) @ [take i p]) \<subseteq> set (ancestors p)"
proof -
  have "take i p \<in> set (ancestors p)"
    using assms by (auto simp: ancestors_def)
  moreover have "a \<in> set (ancestors p)" if "a \<in> set (ancestors (take i p))" for a
  proof -
    from that obtain j where j: "1 \<le> j" "j < i" "take i p ! j = CHR ''/''" "a = take j (take i p)"
      using assms(2) by (auto simp: ancestors_def)
    then have "p ! j = CHR ''/''" "a = take j p" "j < length p"
      using assms(2) by (simp_all add: min_def)
    with j(1) show ?thesis
      by (auto simp: ancestors_def)
  qed
  ultimately show ?thesis by auto
qed

lemma length_ancestor: "a \<in> set (ancestors p) \<Longrightarrow> length a < length p"
  by (auto simp: ancestors_def)

lemma sh_base64:
  "shell_plain p \<Longrightarrow>
   sh (base64_cmd p) s =
     (Inr (said (case nodes s p of Some (Reg bs m a) \<Rightarrow> wrap76 (toBase64 bs) | _ \<Rightarrow> [])), s)"
  by (simp add: sh_def sh_parse_base64 sh_run_def)

lemma parent_dir_cases:
  assumes "pth \<noteq> []"
  obtains "lastIndexOf pth (CHR ''/'') \<le> 0" "parentDir pth = ''/''"
  | "0 < lastIndexOf pth (CHR ''/'')"
    "parentDir pth = take (nat (lastIndexOf pth (CHR ''/''))) pth"
    "set (ancestors (parentDir pth) @ [parentDir pth]) \<subseteq> set (ancestors pth)"
proof (cases "lastIndexOf pth (CHR ''/'') \<le> 0")
  case True
  then have "parentDir pth = ''/''"
    by (simp add: parentDir_def substring_0_def)
  with True that(1) show ?thesis by blast
next
  case False
  define i where "i = nat (lastIndexOf pth (CHR ''/''))"
  have i: "0 < i" "i < length pth" "pth ! i = CHR ''/''"
    using False lastIndexOf_less [of pth "CHR ''/''"] lastIndexOf_nth [of pth "CHR ''/''"]
    by (simp_all add: i_def)
  have "take i pth \<noteq> []"
    using i assms by simp
  then have d: "parentDir pth = take i pth"
    by (simp add: parentDir_def substring_0_def i_def)
  from ancestors_take [OF i] d False that(2) show ?thesis
    by (simp add: i_def)
qed

subsection \<open>The provider\<close>

lemma getSprite_frame:
  assumes "getSprite n w = (Inr sprite, w0)"
  shows "remote w0 = remote w" "issued w0 = issued w" "fired w0 = fired w"
    "client w0 = client w" "clock w0 = clock w" "readings w0 = readings w"
    "spriteCache w0 n = Some sprite" "client w \<noteq> None" "atob_error w0 = atob_error w"
  using assms by (auto simp: getSprite_def split: option.splits)

lemma getSprite_cached:
  "client w \<noteq> None \<Longrightarrow> spriteCache w n = Some sprite \<Longrightarrow> getSprite n w = (Inr sprite, w)"
  by (auto simp: getSprite_def split: option.splits)

lemma getSprite_session:
  "getSprite n (session c r) = (Inr (c n), (session c r)\<lparr>spriteCache := [n \<mapsto> c n]\<rparr>)"
  by (simp add: getSprite_def session_def)

lemma session_fields:
  "remote (session c r) = r" "issued (session c r) = []" "fired (session c r) = []"
  by (simp_all add: session_def)

lemma scripted_reply:
  "scripted n cmd (reply # rest) = (reply, rest)" "scripted n cmd [] = (Inl ''connection closed'', [])"
  by (simp_all add: scripted_def)

lemma getSprite_box:
  "getSprite (authority \<lparr>authority = n, path = p\<rparr>) (session scripted rs)
     = (Inr (scripted n), (session scripted rs)\<lparr>spriteCache := [n \<mapsto> scripted n]\<rparr>)"
  by (simp add: getSprite_session)

lemma getSprite_store:
  "getSprite (authority \<lparr>authority = n, path = p\<rparr>) (session store_client s)
     = (Inr sh, (session store_client s)\<lparr>spriteCache := [n \<mapsto> sh]\<rparr>)"
  by (simp add: getSprite_session store_client_def)

lemma getSprite_error:
  "getSprite n w = (Inl e, w0) \<Longrightarrow> e = Unavailable ''Not connected to Sprites API''"
  by (simp add: getSprite_def split: option.splits)

lemma delete_result:
  "fst (delete u options w) = Inr () \<or> (\<exists>msg. fst (delete u options w) = Inl (Unavailable msg))"
proof -
  obtain res w0 where g: "getSprite (authority u) w = (res, w0)"
    by (cases "getSprite (authority u) w")
  show ?thesis
  proof (cases res)
    case (Inl e)
    with g getSprite_error [of "authority u" w e w0] show ?thesis
      by (simp add: delete_def parseUri_def)
  next
    case (Inr sprite)
    obtain reply ra
      where r: "sprite (rm_cmd (if recursive options then ''-rf'' else ''-f'') (snd (parseUri u)))
        (remote w0) = (reply, ra)"
      by (cases "sprite (rm_cmd (if recursive options then ''-rf'' else ''-f'') (snd (parseUri u)))
        (remote w0)")
    with g Inr show ?thesis
      by (cases reply) (simp_all add: delete_def catch_unavailable_def exec_def parseUri_def)
  qed
qed

lemma sh_mv:
  "shell_plain a \<Longrightarrow> shell_plain b \<Longrightarrow>
   sh (mv_cmd a b) s = (Inr (fst (sh_run (Mv a b) s)), snd (sh_run (Mv a b) s))"
  by (simp add: sh_def sh_parse_mv split: prod.splits)

lemma issued_or_now: "issued (snd (or_now x w)) = issued w"
  by (simp add: or_now_def date_now_def)

lemma stat_issued:
  assumes sp: "getSprite (authority u) w = (Inr sprite, w0)"
  shows "issued (snd (stat u w)) = issued w @ [stat_cmd (snd (parseUri u))]"
proof -
  define pth where "pth = snd (parseUri u)"
  have pu: "parseUri u = (authority u, pth)"
    by (simp add: pth_def parseUri_def)
  obtain reply r where rep: "sprite (stat_cmd pth) (remote w0) = (reply, r)"
    by (cases "sprite (stat_cmd pth) (remote w0)")
  have "issued (snd (stat_try sprite u pth w0)) = issued w0 @ [stat_cmd pth]"
    using issued_or_now
    by (auto simp: stat_try_def exec_def rep Let_def or_now_def date_now_def
        split: sum.splits prod.splits option.splits)
  then show ?thesis
    using sp getSprite_frame(2) [OF sp]
    unfolding pth_def [symmetric]
    by (auto simp: stat_def pu catch_rethrow_def split: prod.splits sum.splits thrown.splits)
qed

lemma readDirectory_issued:
  assumes sp: "getSprite (authority u) w = (Inr sprite, w0)"
  shows "issued (snd (readDirectory u w)) = issued w @ [ls_cmd (snd (parseUri u))]"
proof -
  define pth where "pth = snd (parseUri u)"
  have pu: "parseUri u = (authority u, pth)"
    by (simp add: pth_def parseUri_def)
  show ?thesis
    using sp getSprite_frame(2) [OF sp]
    unfolding pth_def [symmetric]
    by (auto simp: readDirectory_def pu catch_unavailable_def exec_def Let_def
        split: prod.splits sum.splits)
qed

lemma readFile_issued:
  assumes sp: "getSprite (authority u) w = (Inr sprite, w0)"
  shows "\<exists>k. 0 < k \<and> issued (snd (readFile u w)) =
           issued w @ take k [base64_cmd (snd (parseUri u)), test_f_cmd (snd (parseUri u))]"
proof -
  define pth where "pth = snd (parseUri u)"
  have pu: "parseUri u = (authority u, pth)"
    by (simp add: pth_def parseUri_def)
  have "issued (snd (readFile u w)) = issued w @ [base64_cmd pth]
      \<or> issued (snd (readFile u w)) = issued w @ [base64_cmd pth, test_f_cmd pth]"
    using sp getSprite_frame(2) [OF sp]
    by (auto simp: readFile_def readFile_try_def pu catch_rethrow_def exec_def Let_def
        split: prod.splits sum.splits thrown.splits option.splits)
  then show ?thesis
  proof
    assume "issued (snd (readFile u w)) = issued w @ [base64_cmd pth]"
    then show ?thesis by (intro exI [of _ 1]) (simp add: pth_def)
  next
    assume "issued (snd (readFile u w)) = issued w @ [base64_cmd pth, test_f_cmd pth]"
    then show ?thesis by (intro exI [of _ 2]) (simp add: pth_def)
  qed
qed

lemma writeFile_issued:
  assumes sp: "getSprite (authority u) w = (Inr sprite, w0)"
  shows "\<exists>k. 0 < k \<and> issued (snd (writeFile u content options w)) =
           issued w @ take k [exists_cmd (snd (parseUri u)),
                              mkdir_cmd (parentDir (snd (parseUri u))),
                              write_cmd (toBase64 content) (snd (parseUri u))]"
proof -
  define pth where "pth = snd (parseUri u)"
  define r where "r = issued (snd (writeFile u content options w))"
  have pu: "parseUri u = (authority u, pth)"
    by (simp add: pth_def parseUri_def)
  have "r = issued w @ [exists_cmd pth]
      \<or> r = issued w @ [exists_cmd pth, mkdir_cmd (parentDir pth)]
      \<or> r = issued w @ [exists_cmd pth, mkdir_cmd (parentDir pth),
                          write_cmd (toBase64 content) pth]"
    using sp getSprite_frame(2) [OF sp]
    by (auto simp: r_def writeFile_def writeFile_try_def pu catch_rethrow_def exec_def Let_def
        fire_def split: prod.splits sum.splits thrown.splits)
  then consider "r = issued w @ [exists_cmd pth]"
    | "r = issued w @ [exists_cmd pth, mkdir_cmd (parentDir pth)]"
    | "r = issued w @ [exists_cmd pth, mkdir_cmd (parentDir pth),
                          write_cmd (toBase64 content) pth]"
    by blast
  then show ?thesis
  proof cases
    case 1 then show ?thesis by (intro exI [of _ 1]) (simp add: pth_def r_def)
  next
    case 2 then show ?thesis by (intro exI [of _ 2]) (simp add: pth_def r_def)
  next
    case 3 then show ?thesis by (intro exI [of _ 3]) (simp add: pth_def r_def)
  qed
qed

lemma createDirectory_issued:
  assumes sp: "getSprite (authority u) w = (Inr sprite, w0)"
  shows "issued (snd (createDirectory u w)) = issued w @ [mkdir_cmd (snd (parseUri u))]"
proof -
  define pth where "pth = snd (parseUri u)"
  have pu: "parseUri u = (authority u, pth)"
    by (simp add: pth_def parseUri_def)
  show ?thesis
    using sp getSprite_frame(2) [OF sp]
    unfolding pth_def [symmetric]
    by (auto simp: createDirectory_def pu catch_unavailable_def exec_def fire_def
        split: prod.splits sum.splits)
qed

lemma delete_issued:
  assumes sp: "getSprite (authority u) w = (Inr sprite, w0)"
  shows "issued (snd (delete u options w)) =
     issued w @ [rm_cmd (if recursive options then ''-rf'' else ''-f'') (snd (parseUri u))]"
proof -
  define pth where "pth = snd (parseUri u)"
  have pu: "parseUri u = (authority u, pth)"
    by (simp add: pth_def parseUri_def)
  show ?thesis
    using sp getSprite_frame(2) [OF sp]
    unfolding pth_def [symmetric]
    by (auto simp: delete_def pu catch_unavailable_def exec_def fire_def Let_def
        split: prod.splits sum.splits)
qed

lemma rename_issued:
  assumes same: "authority newUri = authority u"
    and sp: "getSprite (authority u) w = (Inr sprite, w0)"
  shows "\<exists>k. 0 < k \<and> issued (snd (rename u newUri options w)) =
           issued w @ take k
             (if overwrite options
              then [mv_cmd (snd (parseUri u)) (snd (parseUri newUri))]
              else [test_e_cmd (snd (parseUri newUri)),
                    mv_cmd (snd (parseUri u)) (snd (parseUri newUri))])"
proof -
  define a where "a = snd (parseUri u)"
  define b where "b = snd (parseUri newUri)"
  define r where "r = issued (snd (rename u newUri options w))"
  have pa: "parseUri u = (authority u, a)"
    by (simp add: a_def parseUri_def)
  have pb: "parseUri newUri = (authority u, b)"
    using same by (simp add: b_def parseUri_def)
  have "(overwrite options \<and> r = issued w @ [mv_cmd a b])
      \<or> (\<not> overwrite options \<and> r = issued w @ [test_e_cmd b])
      \<or> (\<not> overwrite options \<and> r = issued w @ [test_e_cmd b, mv_cmd a b])"
    using sp getSprite_frame(2) [OF sp]
    by (auto simp: r_def rename_def rename_try_def rename_check_def pa pb catch_rethrow_def
        exec_def fire_def split: prod.splits sum.splits thrown.splits)
  then consider "overwrite options" "r = issued w @ [mv_cmd a b]"
    | "\<not> overwrite options" "r = issued w @ [test_e_cmd b]"
    | "\<not> overwrite options" "r = issued w @ [test_e_cmd b, mv_cmd a b]"
    by blast
  then show ?thesis
  proof cases
    case 1 then show ?thesis by (intro exI [of _ 1]) (simp add: a_def b_def r_def)
  next
    case 2 then show ?thesis by (intro exI [of _ 1]) (simp add: a_def b_def r_def)
  next
    case 3 then show ?thesis by (intro exI [of _ 2]) (simp add: a_def b_def r_def)
  qed
qed

lemma entry_of_indicator:
  "entry_of (name @ ''/'') = (name, Directory)"
  "entry_of (name @ ''@'') = (name, SymbolicLink)"
  "entry_of (name @ ''*'') = (name, File)"
  "entry_of (name @ ''|'') = (name, File)"
  "entry_of (name @ ''='') = (name, File)"
  by (simp_all add: entry_of_def endsWith_def slice_0_m1_def)

lemma entry_of_plain:
  "line = [] \<or> last line \<notin> {CHR ''/'', CHR ''@'', CHR ''*'', CHR ''|'', CHR ''=''}
     \<Longrightarrow> entry_of line = (line, File)"
  by (auto simp: entry_of_def endsWith_def)

section \<open>The claims\<close>

text \<open>
  Claim C1, as stated: every path is escaped where a translator puts it into a command,
  so that the shell reads the quoted word back as the path. The source interpolates the
  path as it is. For the path \<^verbatim>\<open>x";id;"\<close> the command of \<open>stat\<close> is
  \<^verbatim>\<open>stat -c '%F|%s|%Y|%X' "x";id;"" 2>/dev/null || echo "NOTFOUND"\<close>: the quoted word
  ends after \<^verbatim>\<open>x\<close>, and \<^verbatim>\<open>id\<close> is a command of its own.
\<close>

theorem stat_cmd_injection:
  \<open>stat_cmd ''x";id;"'' = ''stat -c '%F|%s|%Y|%X' "x";id;"" 2>/dev/null || echo "NOTFOUND"''
   \<and> \<not> reads_quoted ''stat -c '%F|%s|%Y|%X' "'' ''x";id;"''
         '' 2>/dev/null || echo "NOTFOUND"'' (stat_cmd ''x";id;"'')\<close>
  by (simp add: reads_quoted_def stat_cmd_def)

text \<open>
  Claim C1, amended: every translator puts the path between two double quotes as it is,
  with no escaping. With a session bound, the commands that \<open>stat\<close>,
  \<open>readDirectory\<close>, \<open>readFile\<close>, \<open>writeFile\<close>, \<open>createDirectory\<close>, \<open>delete\<close>
  and \<open>rename\<close> issue are the first one, or the first ones, of the command lines
  written out below, whatever the remote answers. For a path (and, in \<open>rename\<close>, a
  second path) that holds no double quote, dollar sign, backquote or backslash, the
  shell reads the quoted word of each of these command lines back as exactly that path.
\<close>

theorem paths_inserted_unescaped:
  \<open>(getSprite (authority u) w = (Inr sprite, w0) \<longrightarrow>
      issued (snd (stat u w)) =
        issued w @ [''stat -c '%F|%s|%Y|%X' "'' @ snd (parseUri u)
                      @ ''" 2>/dev/null || echo "NOTFOUND"'']
    \<and> issued (snd (readDirectory u w)) =
        issued w @ [''ls -1ApL "'' @ snd (parseUri u) @ ''" 2>/dev/null'']
    \<and> (\<exists>k. 0 < k \<and> issued (snd (readFile u w)) =
          issued w @ take k [''base64 "'' @ snd (parseUri u) @ ''" 2>/dev/null'',
                             ''test -f "'' @ snd (parseUri u) @ ''" && echo EXISTS''])
    \<and> (\<exists>k. 0 < k \<and> issued (snd (writeFile u content options w)) =
          issued w @ take k
            [''test -e "'' @ snd (parseUri u) @ ''" && echo EXISTS || echo NOTEXISTS'',
             ''mkdir -p "'' @ parentDir (snd (parseUri u)) @ ''"'',
             ''echo "'' @ toBase64 content @ ''" | base64 -d > "'' @ snd (parseUri u) @ ''"''])
    \<and> issued (snd (createDirectory u w)) =
        issued w @ [''mkdir -p "'' @ snd (parseUri u) @ ''"'']
    \<and> issued (snd (delete u removal w)) =
        issued w @ [(if recursive removal then ''rm -rf "'' else ''rm -f "'')
                      @ snd (parseUri u) @ ''"'']
    \<and> (authority newUri = authority u \<longrightarrow>
         (\<exists>k. 0 < k \<and> issued (snd (rename u newUri move w)) =
            issued w @ take k
              (if overwrite move
               then [''mv "'' @ snd (parseUri u) @ ''" "'' @ snd (parseUri newUri) @ ''"'']
               else [''test -e "'' @ snd (parseUri newUri) @ ''" && echo EXISTS'',
                     ''mv "'' @ snd (parseUri u) @ ''" "'' @ snd (parseUri newUri) @ ''"'']))))
   \<and> (shell_plain pth \<and> shell_plain newPath \<longrightarrow>
      reads_quoted ''stat -c '%F|%s|%Y|%X' "'' pth '' 2>/dev/null || echo "NOTFOUND"''
        (''stat -c '%F|%s|%Y|%X' "'' @ pth @ ''" 2>/dev/null || echo "NOTFOUND"'')
    \<and> reads_quoted ''ls -1ApL "'' pth '' 2>/dev/null''
        (''ls -1ApL "'' @ pth @ ''" 2>/dev/null'')
    \<and> reads_quoted ''base64 "'' pth '' 2>/dev/null'' (''base64 "'' @ pth @ ''" 2>/dev/null'')
    \<and> reads_quoted ''test -f "'' pth '' && echo EXISTS''
        (''test -f "'' @ pth @ ''" && echo EXISTS'')
    \<and> reads_quoted ''test -e "'' pth '' && echo EXISTS || echo NOTEXISTS''
        (''test -e "'' @ pth @ ''" && echo EXISTS || echo NOTEXISTS'')
    \<and> reads_quoted ''mkdir -p "'' (parentDir pth) [] (''mkdir -p "'' @ parentDir pth @ ''"'')
    \<and> reads_quoted (''echo "'' @ encoded @ ''" | base64 -d > "'') pth []
        (''echo "'' @ encoded @ ''" | base64 -d > "'' @ pth @ ''"'')
    \<and> reads_quoted ''mkdir -p "'' pth [] (''mkdir -p "'' @ pth @ ''"'')
    \<and> reads_quoted ''rm -f "'' pth [] (''rm -f "'' @ pth @ ''"'')
    \<and> reads_quoted ''rm -rf "'' pth [] (''rm -rf "'' @ pth @ ''"'')
    \<and> reads_quoted ''test -e "'' newPath '' && echo EXISTS''
        (''test -e "'' @ newPath @ ''" && echo EXISTS'')
    \<and> reads_quoted ''mv "'' pth ('' "'' @ newPath @ ''"'')
        (''mv "'' @ pth @ ''" "'' @ newPath @ ''"'')
    \<and> reads_quoted (''mv "'' @ pth @ ''" "'') newPath []
        (''mv "'' @ pth @ ''" "'' @ newPath @ ''"''))\<close>
proof (intro conjI impI)
  assume sp: "getSprite (authority u) w = (Inr sprite, w0)"
  show \<open>issued (snd (stat u w)) =
        issued w @ [''stat -c '%F|%s|%Y|%X' "'' @ snd (parseUri u)
                      @ ''" 2>/dev/null || echo "NOTFOUND"'']\<close>
    using stat_issued [OF sp] by (simp add: stat_cmd_def)
  show \<open>issued (snd (readDirectory u w)) =
        issued w @ [''ls -1ApL "'' @ snd (parseUri u) @ ''" 2>/dev/null'']\<close>
    using readDirectory_issued [OF sp] by (simp add: ls_cmd_def)
  show \<open>\<exists>k. 0 < k \<and> issued (snd (readFile u w)) =
          issued w @ take k [''base64 "'' @ snd (parseUri u) @ ''" 2>/dev/null'',
                             ''test -f "'' @ snd (parseUri u) @ ''" && echo EXISTS'']\<close>
    using readFile_issued [OF sp] by (simp add: base64_cmd_def test_f_cmd_def)
  show \<open>\<exists>k. 0 < k \<and> issued (snd (writeFile u content options w)) =
          issued w @ take k
            [''test -e "'' @ snd (parseUri u) @ ''" && echo EXISTS || echo NOTEXISTS'',
             ''mkdir -p "'' @ parentDir (snd (parseUri u)) @ ''"'',
             ''echo "'' @ toBase64 content @ ''" | base64 -d > "'' @ snd (parseUri u) @ ''"'']\<close>
    using writeFile_issued [OF sp, of content options]
    by (simp add: exists_cmd_def mkdir_cmd_def write_cmd_def)
  show \<open>issued (snd (createDirectory u w)) =
        issued w @ [''mkdir -p "'' @ snd (parseUri u) @ ''"'']\<close>
    using createDirectory_issued [OF sp] by (simp add: mkdir_cmd_def)
  show \<open>issued (snd (delete u removal w)) =
        issued w @ [(if recursive removal then ''rm -rf "'' else ''rm -f "'')
                      @ snd (parseUri u) @ ''"'']\<close>
    using delete_issued [OF sp, of removal] by (simp add: rm_cmd_def)
  show \<open>\<exists>k. 0 < k \<and> issued (snd (rename u newUri move w)) =
            issued w @ take k
              (if overwrite move
               then [''mv "'' @ snd (parseUri u) @ ''" "'' @ snd (parseUri newUri) @ ''"'']
               else [''test -e "'' @ snd (parseUri newUri) @ ''" && echo EXISTS'',
                     ''mv "'' @ snd (parseUri u) @ ''" "'' @ snd (parseUri newUri) @ ''"''])\<close>
    if "authority newUri = authority u"
    using rename_issued [OF that sp, of move, unfolded mv_cmd_def test_e_cmd_def] .
next
  assume "shell_plain pth \<and> shell_plain newPath"
  then have p: "shell_plain pth" and q: "shell_plain newPath"
    by simp_all
  show \<open>reads_quoted ''stat -c '%F|%s|%Y|%X' "'' pth '' 2>/dev/null || echo "NOTFOUND"''
        (''stat -c '%F|%s|%Y|%X' "'' @ pth @ ''" 2>/dev/null || echo "NOTFOUND"'')\<close>
    using stat_cmd_plain [OF p] by (simp add: stat_cmd_def)
  show \<open>reads_quoted ''ls -1ApL "'' pth '' 2>/dev/null''
        (''ls -1ApL "'' @ pth @ ''" 2>/dev/null'')\<close>
    using ls_cmd_plain [OF p] by (simp add: ls_cmd_def)
  show \<open>reads_quoted ''base64 "'' pth '' 2>/dev/null'' (''base64 "'' @ pth @ ''" 2>/dev/null'')\<close>
    using base64_cmd_plain [OF p] by (simp add: base64_cmd_def)
  show \<open>reads_quoted ''test -f "'' pth '' && echo EXISTS''
        (''test -f "'' @ pth @ ''" && echo EXISTS'')\<close>
    using test_f_cmd_plain [OF p] by (simp add: test_f_cmd_def)
  show \<open>reads_quoted ''test -e "'' pth '' && echo EXISTS || echo NOTEXISTS''
        (''test -e "'' @ pth @ ''" && echo EXISTS || echo NOTEXISTS'')\<close>
    using exists_cmd_plain [OF p] by (simp add: exists_cmd_def)
  show \<open>reads_quoted ''mkdir -p "'' (parentDir pth) [] (''mkdir -p "'' @ parentDir pth @ ''"'')\<close>
    using mkdir_cmd_plain [OF shell_plain_parentDir [OF p] ] by (simp add: mkdir_cmd_def)
  show \<open>reads_quoted (''echo "'' @ encoded @ ''" | base64 -d > "'') pth []
        (''echo "'' @ encoded @ ''" | base64 -d > "'' @ pth @ ''"'')\<close>
    using write_cmd_plain [OF p, of encoded] by (simp add: write_cmd_def)
  show \<open>reads_quoted ''mkdir -p "'' pth [] (''mkdir -p "'' @ pth @ ''"'')\<close>
    using mkdir_cmd_plain [OF p] by (simp add: mkdir_cmd_def)
  show \<open>reads_quoted ''rm -f "'' pth [] (''rm -f "'' @ pth @ ''"'')\<close>
    using rm_cmd_plain [OF p, of "''-f''"] by (simp add: rm_cmd_def)
  show \<open>reads_quoted ''rm -rf "'' pth [] (''rm -rf "'' @ pth @ ''"'')\<close>
    using rm_cmd_plain [OF p, of "''-rf''"] by (simp add: rm_cmd_def)
  show \<open>reads_quoted ''test -e "'' newPath '' && echo EXISTS''
        (''test -e "'' @ newPath @ ''" && echo EXISTS'')\<close>
    using test_e_cmd_plain [OF q] by (simp add: test_e_cmd_def)
  show \<open>reads_quoted ''mv "'' pth ('' "'' @ newPath @ ''"'')
        (''mv "'' @ pth @ ''" "'' @ newPath @ ''"'')\<close>
    using mv_cmd_plain_old [OF p, of newPath] by (simp add: mv_cmd_def)
  show \<open>reads_quoted (''mv "'' @ pth @ ''" "'') newPath []
        (''mv "'' @ pth @ ''" "'' @ newPath @ ''"'')\<close>
    using mv_cmd_plain_new [OF q, of pth] by (simp add: mv_cmd_def)
qed

theorem paths_inserted_unescaped_witness:
  \<open>getSprite (authority \<lparr>authority = ''box1'', path = ''/tmp/demo/a.txt''\<rparr>)
       (session store_client \<lparr>nodes = Map.empty, now = 1700000000\<rparr>)
     = (Inr sh, (session store_client \<lparr>nodes = Map.empty, now = 1700000000\<rparr>)
                  \<lparr>spriteCache := [''box1'' \<mapsto> sh]\<rparr>)
   \<and> issued (snd (stat \<lparr>authority = ''box1'', path = ''/tmp/demo/a.txt''\<rparr>
        (session store_client \<lparr>nodes = Map.empty, now = 1700000000\<rparr>)))
     = [''stat -c '%F|%s|%Y|%X' "/tmp/demo/a.txt" 2>/dev/null || echo "NOTFOUND"'']
   \<and> issued (snd (delete \<lparr>authority = ''box1'', path = ''/tmp/demo/a.txt''\<rparr>
        \<lparr>recursive = True\<rparr> (session store_client \<lparr>nodes = Map.empty, now = 1700000000\<rparr>)))
     = [''rm -rf "/tmp/demo/a.txt"'']
   \<and> (\<exists>k. 0 < k
        \<and> issued (snd (writeFile \<lparr>authority = ''box1'', path = ''/tmp/demo/a.txt''\<rparr> [0, 255]
             \<lparr>overwrite = True, create = True\<rparr>
             (session store_client \<lparr>nodes = Map.empty, now = 1700000000\<rparr>)))
          = take k [''test -e "/tmp/demo/a.txt" && echo EXISTS || echo NOTEXISTS'',
                    ''mkdir -p "/tmp/demo"'',
                    ''echo "AP8=" | base64 -d > "/tmp/demo/a.txt"''])
   \<and> (\<exists>k. 0 < k
        \<and> issued (snd (rename \<lparr>authority = ''box1'', path = ''/tmp/demo/a.txt''\<rparr>
             \<lparr>authority = ''box1'', path = ''/tmp/b.txt''\<rparr> \<lparr>overwrite = False\<rparr>
             (session store_client \<lparr>nodes = Map.empty, now = 1700000000\<rparr>)))
          = take k [''test -e "/tmp/b.txt" && echo EXISTS'',
                    ''mv "/tmp/demo/a.txt" "/tmp/b.txt"''])
   \<and> shell_plain ''/tmp/demo/a.txt'' \<and> shell_plain ''/tmp/b.txt''
   \<and> reads_quoted ''stat -c '%F|%s|%Y|%X' "'' ''/tmp/demo/a.txt''
        '' 2>/dev/null || echo "NOTFOUND"''
        ''stat -c '%F|%s|%Y|%X' "/tmp/demo/a.txt" 2>/dev/null || echo "NOTFOUND"''
   \<and> reads_quoted ''mkdir -p "'' ''/tmp/demo'' [] ''mkdir -p "/tmp/demo"''
   \<and> reads_quoted ''mv "/tmp/demo/a.txt" "'' ''/tmp/b.txt'' []
        ''mv "/tmp/demo/a.txt" "/tmp/b.txt"''\<close>
proof -
  let ?u = "\<lparr>authority = ''box1'', path = ''/tmp/demo/a.txt''\<rparr>"
  let ?n = "\<lparr>authority = ''box1'', path = ''/tmp/b.txt''\<rparr>"
  let ?w = "session store_client \<lparr>nodes = Map.empty, now = 1700000000\<rparr>"
  have sp: "getSprite (authority ?u) ?w = (Inr sh, ?w\<lparr>spriteCache := [''box1'' \<mapsto> sh]\<rparr>)"
    by (rule getSprite_store)
  have same: "authority ?n = authority ?u"
    by simp
  have a: "shell_plain ''/tmp/demo/a.txt''" and b: "shell_plain ''/tmp/b.txt''"
    by (simp_all add: shell_plain_def)
  have d: "parentDir ''/tmp/demo/a.txt'' = ''/tmp/demo''"
    by (simp add: parentDir_def substring_0_def)
  have pu: "snd (parseUri ?u) = ''/tmp/demo/a.txt''" "snd (parseUri ?n) = ''/tmp/b.txt''"
    by (simp_all add: parseUri_def)
  have e: "toBase64 [0, 255] = ''AP8=''"
    by (simp add: b64_char_def base64_alphabet_def)
  note paths_inserted_unescaped [where u = ?u and w = ?w and sprite = sh
      and ?w0.0 = "?w\<lparr>spriteCache := [''box1'' \<mapsto> sh]\<rparr>"
      and content = "[0, 255]" and options = "\<lparr>overwrite = True, create = True\<rparr>"
      and removal = "\<lparr>recursive = True\<rparr>" and newUri = ?n
      and move = "\<lparr>overwrite = False\<rparr>"
      and pth = "''/tmp/demo/a.txt''" and newPath = "''/tmp/b.txt''" and encoded = "[]"]
  then show ?thesis
    unfolding pu d e using sp same a b
    by (simp add: session_fields del: One_nat_def)
qed

text \<open>
  Claim C2, as stated: for every byte sequence, \<open>writeFile\<close> with \<open>create\<close> and
  \<open>overwrite\<close> followed by \<open>readFile\<close> of the same locator returns the sequence.
  The path goes into the commands as it is. For the path \<^verbatim>\<open>/x"\<close> the quote of the
  path closes the quoted word of the write command and the line does not run;
  \<open>writeFile\<close> reads no result of that command and succeeds, and \<open>readFile\<close> then
  finds no file.
\<close>

theorem writeFile_readFile_quote_in_path:
  \<open>fst (writeFile \<lparr>authority = ''box1'', path = ''/x"''\<rparr> [1, 2, 3]
          \<lparr>overwrite = True, create = True\<rparr>
          (session store_client \<lparr>nodes = Map.empty, now = 1700000000\<rparr>)) = Inr ()
   \<and> fst (readFile \<lparr>authority = ''box1'', path = ''/x"''\<rparr>
          (snd (writeFile \<lparr>authority = ''box1'', path = ''/x"''\<rparr> [1, 2, 3]
             \<lparr>overwrite = True, create = True\<rparr>
             (session store_client \<lparr>nodes = Map.empty, now = 1700000000\<rparr>))))
     = Inl (FileNotFound \<lparr>authority = ''box1'', path = ''/x"''\<rparr>)\<close>
  by (simp add: writeFile_def writeFile_try_def readFile_def readFile_try_def exec_def
      catch_rethrow_def parseUri_def getSprite_def session_def store_client_def fire_def
      sh_def sh_parse_def one_word_def two_words_def quoted_after_def sh_run_def
      exists_cmd_def mkdir_cmd_def write_cmd_def base64_cmd_def test_f_cmd_def
      parentDir_def substring_0_def refused_def said_def trim_def strip_space_def
      js_space_def b64_char_def base64_alphabet_def)

text \<open>
  Claim C2, amended: for every byte sequence, the empty one and those with null bytes
  among them, and every path that holds no double quote, dollar sign, backquote or
  backslash and does not end with a slash, on the remote that keeps files, when the path
  names no directory there and no name above it is a regular file: \<open>writeFile\<close> with
  \<open>create\<close> and \<open>overwrite\<close> succeeds, and \<open>readFile\<close> of the same locator then
  returns the sequence.
\<close>

theorem writeFile_readFile_roundtrip:
  fixes content :: "byte list"
  assumes sp: "getSprite (authority u) w = (Inr sh, w0)"
    and plain: "shell_plain (snd (parseUri u))"
    and noslash: "\<not> endsWith (snd (parseUri u)) (CHR ''/'')"
    and nodir: "\<not> is_dir (nodes (remote w) (snd (parseUri u)))"
    and noreg: "\<forall>a \<in> set (ancestors (snd (parseUri u))). \<not> is_reg (nodes (remote w) a)"
  shows "\<exists>w1 w2. writeFile u content \<lparr>overwrite = True, create = True\<rparr> w = (Inr (), w1)
           \<and> readFile u w1 = (Inr content, w2)"
proof -
  define pth where "pth = snd (parseUri u)"
  have pu: "parseUri u = (authority u, pth)"
    by (simp add: pth_def parseUri_def)
  have plain': "shell_plain pth"
    using plain by (simp add: pth_def)
  have ne: "pth \<noteq> []"
    by (simp add: pth_def parseUri_def)
  have noroot: "pth \<noteq> ''/''"
    using noslash by (auto simp: pth_def endsWith_def)
  note fr = getSprite_frame [OF sp]
  have pp: "shell_plain (parentDir pth)"
    using plain' by (rule shell_plain_parentDir)
  have above: "\<forall>a \<in> set (ancestors (parentDir pth) @ [parentDir pth]).
      \<not> is_reg (nodes (remote w) a)" if "parentDir pth \<noteq> ''/''"
    using ne
  proof (cases rule: parent_dir_cases)
    case 1
    with that show ?thesis by simp
  next
    case 2
    with noreg show ?thesis
      unfolding pth_def [symmetric] by blast
  qed
  from sh_mkdir [OF pp above] obtain s1
    where mk: "sh (mkdir_cmd (parentDir pth)) (remote w) = (Inr (said []), s1)"
      and there: "dir_at s1 (parentDir pth)"
      and same: "\<forall>q. q \<notin> set (ancestors (parentDir pth) @ [parentDir pth])
          \<longrightarrow> nodes s1 q = nodes (remote w) q"
    by blast
  have "pth \<notin> set (ancestors (parentDir pth) @ [parentDir pth])"
    using ne
  proof (cases rule: parent_dir_cases)
    case 1
    with noroot show ?thesis by (simp add: ancestors_def)
  next
    case 2
    with length_ancestor [of pth pth] show ?thesis by blast
  qed
  with same nodir have nodir1: "\<not> is_dir (nodes s1 pth)"
    by (simp add: pth_def)
  have parent: "parent_there s1 pth"
    using ne
  proof (cases rule: parent_dir_cases)
    case 1
    then show ?thesis by (simp add: parent_there_def)
  next
    case 2
    with there show ?thesis by (simp add: parent_there_def)
  qed
  have noslash': "\<not> endsWith pth (CHR ''/'')"
    using noslash by (simp add: pth_def)
  define s2 where "s2 = s1\<lparr>nodes := (nodes s1)(pth \<mapsto> Reg content (now s1) (now s1))\<rparr>"
  define w1 where "w1 = fire [(if nodes (remote w) pth = None then Created else Changed, u)]
     (w0\<lparr>remote := s2, issued := issued w @ [exists_cmd pth, mkdir_cmd (parentDir pth),
        write_cmd (toBase64 content) pth]\<rparr>)"
  have wr: "writeFile u content \<lparr>overwrite = True, create = True\<rparr> w = (Inr (), w1)"
    using sp fr mk sh_write [OF plain' ne noslash' nodir1 parent, of content]
      sh_exists [OF plain', of "remote w"]
    by (simp add: writeFile_def writeFile_try_def exec_def catch_rethrow_def pu
        w1_def s2_def fire_def said_def trim_EXISTS)
  have sp1: "getSprite (authority u) w1 = (Inr sh, w1)"
    using fr by (intro getSprite_cached) (simp_all add: w1_def fire_def)
  have rem: "remote w1 = s2" "nodes s2 pth = Some (Reg content (now s1) (now s1))"
    by (simp_all add: w1_def fire_def s2_def)
  have rd: "sh (base64_cmd pth) s2 = (Inr (said (wrap76 (toBase64 content))), s2)"
    using sh_base64 [OF plain', of s2] rem by simp
  have ck: "sh (test_f_cmd pth) s2 = (Inr (said ''EXISTS\<newline>''), s2)"
    using sh_test_f [OF plain', of s2] rem by simp
  have out: "strip_space (stdout (said (wrap76 (toBase64 content)))) = toBase64 content"
    by (simp add: said_def strip_space_wrap76 strip_space_toBase64)
  have "\<exists>w2. readFile u w1 = (Inr content, w2)"
  proof (cases "content = []")
    case True
    with sp1 rem rd ck out show ?thesis
      by (simp add: readFile_def readFile_try_def exec_def catch_rethrow_def pu
          said_def trim_EXISTS)
  next
    case False
    then have "toBase64 content \<noteq> []"
      by (simp add: toBase64_Nil_iff)
    with sp1 rem rd out show ?thesis
      by (simp add: readFile_def readFile_try_def exec_def catch_rethrow_def pu
          atob_toBase64 charCodeAt_bytes del: map_map)
  qed
  with wr show ?thesis by blast
qed

theorem writeFile_readFile_roundtrip_witness:
  "fst (writeFile \<lparr>authority = ''box1'', path = ''/tmp/demo/a.txt''\<rparr> [0, 255, 0]
          \<lparr>overwrite = True, create = True\<rparr>
          (session store_client \<lparr>nodes = Map.empty, now = 1700000000\<rparr>)) = Inr ()
   \<and> fst (readFile \<lparr>authority = ''box1'', path = ''/tmp/demo/a.txt''\<rparr>
          (snd (writeFile \<lparr>authority = ''box1'', path = ''/tmp/demo/a.txt''\<rparr> [0, 255, 0]
             \<lparr>overwrite = True, create = True\<rparr>
             (session store_client \<lparr>nodes = Map.empty, now = 1700000000\<rparr>)))) = Inr [0, 255, 0]
   \<and> fst (readFile \<lparr>authority = ''box1'', path = ''/tmp/demo/a.txt''\<rparr>
          (snd (writeFile \<lparr>authority = ''box1'', path = ''/tmp/demo/a.txt''\<rparr> []
             \<lparr>overwrite = True, create = True\<rparr>
             (session store_client
                \<lparr>nodes = [''/tmp'' \<mapsto> Dir 5 5, ''/tmp/demo/a.txt'' \<mapsto> Reg [7] 5 5],
                 now = 1700000000\<rparr>)))) = Inr []"
proof -
  let ?u = "\<lparr>authority = ''box1'', path = ''/tmp/demo/a.txt''\<rparr>"
  let ?s = "\<lparr>nodes = Map.empty, now = 1700000000\<rparr>"
  let ?t = "\<lparr>nodes = [''/tmp'' \<mapsto> Dir 5 5, ''/tmp/demo/a.txt'' \<mapsto> Reg [7] 5 5],
             now = 1700000000\<rparr>"
  have plain: "shell_plain (snd (parseUri ?u))"
    by (simp add: parseUri_def shell_plain_def)
  have noslash: "\<not> endsWith (snd (parseUri ?u)) (CHR ''/'')"
    by (simp add: parseUri_def endsWith_def)
  have nodir: "\<not> is_dir (nodes (remote (session store_client ?s)) (snd (parseUri ?u)))"
    "\<not> is_dir (nodes (remote (session store_client ?t)) (snd (parseUri ?u)))"
    by (simp_all add: session_fields is_dir_def parseUri_def)
  have noreg: "\<forall>a \<in> set (ancestors (snd (parseUri ?u))).
      \<not> is_reg (nodes (remote (session store_client ?s)) a)"
    by (simp add: session_fields is_reg_def)
  have anc: "ancestors ''/tmp/demo/a.txt'' = [''/tmp'', ''/tmp/demo'']"
    by (simp add: ancestors_def upt_rec)
  have noreg': "\<forall>a \<in> set (ancestors (snd (parseUri ?u))).
      \<not> is_reg (nodes (remote (session store_client ?t)) a)"
    by (simp add: session_fields is_reg_def parseUri_def anc)
  from writeFile_readFile_roundtrip [OF getSprite_store plain noslash nodir(1) noreg,
      of "[0, 255, 0]"]
    writeFile_readFile_roundtrip [OF getSprite_store plain noslash nodir(2) noreg', of "[]"]
  show ?thesis by auto
qed

text \<open>
  Claim C3: when the two locators name different targets, \<open>rename\<close> fails with
  \<^verbatim>\<open>NoPermissions\<close> whatever the paths and the \<open>overwrite\<close> option are, and the
  world is as before: no command has gone to a remote (so no copy and no delete), and
  no event was fired.
\<close>

theorem rename_across_targets:
  "authority oldUri \<noteq> authority newUri \<Longrightarrow>
   rename oldUri newUri options w =
     (Inl (NoPermissions ''Cannot move files between different Sprites''), w)"
  by (simp add: rename_def parseUri_def)

theorem rename_across_targets_witness:
  "rename \<lparr>authority = ''box1'', path = ''/a.txt''\<rparr> \<lparr>authority = ''box2'', path = ''/a.txt''\<rparr>
     \<lparr>overwrite = True\<rparr> (session scripted [out [] ])
   = (Inl (NoPermissions ''Cannot move files between different Sprites''),
      session scripted [out [] ])"
  by (rule rename_across_targets) simp

text \<open>
  Claim C4, as stated: with neither \<open>create\<close> nor \<open>overwrite\<close>, \<open>writeFile\<close> fails
  with \<^verbatim>\<open>FileNotFound\<close> when the path does not exist on the target. The shell reads a
  backslash in the path as an escape: the path \<^verbatim>\<open>/data/a\\b\<close> (two backslashes) names
  nothing in the store, the existence check tests \<^verbatim>\<open>/data/a\b\<close> (one backslash),
  which is a file there, and \<open>writeFile\<close> fails with \<^verbatim>\<open>FileExists\<close>.
\<close>

theorem writeFile_backslash_in_path:
  \<open>nodes \<lparr>nodes = [''/data/a'' @ [CHR 0x5C] @ ''b'' \<mapsto> Reg [7] 5 5], now = 1700000000\<rparr>
      (''/data/a'' @ [CHR 0x5C, CHR 0x5C] @ ''b'') = None
   \<and> fst (writeFile \<lparr>authority = ''box1'', path = ''/data/a'' @ [CHR 0x5C, CHR 0x5C] @ ''b''\<rparr>
          [1, 2, 3] \<lparr>overwrite = False, create = False\<rparr>
          (session store_client
             \<lparr>nodes = [''/data/a'' @ [CHR 0x5C] @ ''b'' \<mapsto> Reg [7] 5 5], now = 1700000000\<rparr>))
     = Inl (FileExists \<lparr>authority = ''box1'', path = ''/data/a'' @ [CHR 0x5C, CHR 0x5C] @ ''b''\<rparr>)\<close>
  by (simp add: writeFile_def writeFile_try_def exec_def catch_rethrow_def parseUri_def
      getSprite_def session_def store_client_def sh_def sh_parse_def one_word_def
      two_words_def quoted_after_def sh_run_def exists_cmd_def said_def trim_def js_space_def)

text \<open>
  Claim C4, amended: for a path that holds no double quote, dollar sign, backquote or
  backslash, \<open>writeFile\<close> with neither \<open>create\<close> nor \<open>overwrite\<close> fails with
  \<^verbatim>\<open>FileNotFound\<close> when the path does not exist on the remote and with
  \<^verbatim>\<open>FileExists\<close> when it exists; in both cases the existence check is the only
  command issued, and the remote is as before.
\<close>

theorem writeFile_neither_create_nor_overwrite:
  assumes "getSprite (authority u) w = (Inr sh, w0)"
    and "shell_plain (snd (parseUri u))"
  shows "writeFile u content \<lparr>overwrite = False, create = False\<rparr> w =
     (Inl (if nodes (remote w) (snd (parseUri u)) = None then FileNotFound u else FileExists u),
      w0\<lparr>issued := issued w @ [exists_cmd (snd (parseUri u))]\<rparr>)"
proof -
  define pth where "pth = snd (parseUri u)"
  have pu: "parseUri u = (authority u, pth)"
    by (simp add: pth_def parseUri_def)
  have plain: "shell_plain pth"
    using assms(2) by (simp add: pth_def)
  have "w0\<lparr>remote := remote w, issued := issued w @ [exists_cmd pth]\<rparr>
      = w0\<lparr>issued := issued w @ [exists_cmd pth]\<rparr>"
    using getSprite_frame(1) [OF assms(1)] by simp
  then show ?thesis
    using assms(1) getSprite_frame [OF assms(1)] sh_exists [OF plain, of "remote w"]
    unfolding pth_def [symmetric]
    by (simp add: writeFile_def writeFile_try_def exec_def catch_rethrow_def pu said_def
        trim_EXISTS)
qed

theorem writeFile_neither_create_nor_overwrite_witness:
  \<open>writeFile \<lparr>authority = ''box1'', path = ''/tmp/a.txt''\<rparr> [1, 2, 3]
          \<lparr>overwrite = False, create = False\<rparr>
          (session store_client \<lparr>nodes = Map.empty, now = 1700000000\<rparr>)
     = (Inl (FileNotFound \<lparr>authority = ''box1'', path = ''/tmp/a.txt''\<rparr>),
        (session store_client \<lparr>nodes = Map.empty, now = 1700000000\<rparr>)
          \<lparr>spriteCache := [''box1'' \<mapsto> sh],
           issued := [''test -e "/tmp/a.txt" && echo EXISTS || echo NOTEXISTS'']\<rparr>)
   \<and> writeFile \<lparr>authority = ''box1'', path = ''/tmp/a.txt''\<rparr> [1, 2, 3]
          \<lparr>overwrite = False, create = False\<rparr>
          (session store_client \<lparr>nodes = [''/tmp/a.txt'' \<mapsto> Reg [7] 5 5], now = 1700000000\<rparr>)
     = (Inl (FileExists \<lparr>authority = ''box1'', path = ''/tmp/a.txt''\<rparr>),
        (session store_client \<lparr>nodes = [''/tmp/a.txt'' \<mapsto> Reg [7] 5 5], now = 1700000000\<rparr>)
          \<lparr>spriteCache := [''box1'' \<mapsto> sh],
           issued := [''test -e "/tmp/a.txt" && echo EXISTS || echo NOTEXISTS'']\<rparr>)\<close>
proof -
  let ?u = "\<lparr>authority = ''box1'', path = ''/tmp/a.txt''\<rparr>"
  have plain: "shell_plain (snd (parseUri ?u))"
    by (simp add: parseUri_def shell_plain_def)
  from writeFile_neither_create_nor_overwrite [OF getSprite_store plain, of "[1, 2, 3]"
      "\<lparr>nodes = Map.empty, now = 1700000000\<rparr>"]
    writeFile_neither_create_nor_overwrite [OF getSprite_store plain, of "[1, 2, 3]"
      "\<lparr>nodes = [''/tmp/a.txt'' \<mapsto> Reg [7] 5 5], now = 1700000000\<rparr>"]
  show ?thesis
    by (simp add: session_fields parseUri_def exists_cmd_def)
qed



text \<open>
  Claim C6, as stated: for every path that does not exist on the target, \<open>stat\<close> fails
  with \<^verbatim>\<open>FileNotFound\<close>. The path \<^verbatim>\<open>/data/a\\b\<close> (two backslashes) names nothing in
  the store; the shell reads the quoted word as \<^verbatim>\<open>/data/a\b\<close> (one backslash), which
  is a file there, and \<open>stat\<close> returns the attributes of that file.
\<close>

theorem stat_backslash_in_path:
  \<open>nodes \<lparr>nodes = [''/data/a'' @ [CHR 0x5C] @ ''b'' \<mapsto> Reg [7] 1700000000 1700000000],
           now = 1700000000\<rparr>
      (''/data/a'' @ [CHR 0x5C, CHR 0x5C] @ ''b'') = None
   \<and> fst (stat \<lparr>authority = ''box1'', path = ''/data/a'' @ [CHR 0x5C, CHR 0x5C] @ ''b''\<rparr>
          (session store_client
             \<lparr>nodes = [''/data/a'' @ [CHR 0x5C] @ ''b'' \<mapsto> Reg [7] 1700000000 1700000000],
              now = 1700000000\<rparr>))
     = Inr \<lparr>type = File, ctime = Num 1700000000000, mtime = Num 1700000000000, size = Num 1\<rparr>\<close>
  by (simp add: stat_def stat_try_def exec_def catch_rethrow_def parseUri_def
      getSprite_def session_def store_client_def sh_def sh_parse_def one_word_def
      two_words_def quoted_after_def sh_run_def stat_cmd_def said_def trim_def js_space_def
      stat_line_def decimal.simps digit_def parseInt_def js_integer_def times_1000_def
      falsy_def or_now_def is_digit_def file_kind_def Let_def nth_opt_def)

text \<open>
  Claim C6, amended: for every path that holds no double quote, dollar sign, backquote
  or backslash and does not exist on the remote, \<open>stat\<close> fails with
  \<^verbatim>\<open>FileNotFound\<close>. With any remote: when the command prints the sentinel
  \<^verbatim>\<open>NOTFOUND\<close> (or nothing), \<open>stat\<close> fails with \<^verbatim>\<open>FileNotFound\<close>, and when the
  transport fails, \<open>stat\<close> fails with \<^verbatim>\<open>Unavailable\<close> carrying the transport's
  message.
\<close>

theorem stat_not_found_unavailable:
  "(getSprite (authority u) w = (Inr sh, w0) \<and> shell_plain (snd (parseUri u))
      \<and> nodes (remote w) (snd (parseUri u)) = None
     \<longrightarrow> stat u w =
           (Inl (FileNotFound u), w0\<lparr>issued := issued w @ [stat_cmd (snd (parseUri u))]\<rparr>))
   \<and> (getSprite (authority u) v = (Inr sprite, v0)
        \<and> sprite (stat_cmd (snd (parseUri u))) (remote v) = (Inr result, ra)
        \<and> (trim (stdout result) = ''NOTFOUND'' \<or> trim (stdout result) = [])
     \<longrightarrow> stat u v =
           (Inl (FileNotFound u),
            v0\<lparr>remote := ra, issued := issued v @ [stat_cmd (snd (parseUri u))]\<rparr>))
   \<and> (getSprite (authority u) v = (Inr sprite, v0)
        \<and> sprite (stat_cmd (snd (parseUri u))) (remote v) = (Inl msg, ra)
     \<longrightarrow> stat u v =
           (Inl (Unavailable msg),
            v0\<lparr>remote := ra, issued := issued v @ [stat_cmd (snd (parseUri u))]\<rparr>))"
proof -
  define pth where "pth = snd (parseUri u)"
  have pu: "parseUri u = (authority u, pth)"
    by (simp add: pth_def parseUri_def)
  have a: "stat u w = (Inl (FileNotFound u), w0\<lparr>issued := issued w @ [stat_cmd pth]\<rparr>)"
    if sp: "getSprite (authority u) w = (Inr sh, w0)" and plain: "shell_plain pth"
      and none: "nodes (remote w) pth = None"
  proof -
    have "w0\<lparr>remote := remote w, issued := issued w @ [stat_cmd pth]\<rparr>
        = w0\<lparr>issued := issued w @ [stat_cmd pth]\<rparr>"
      using getSprite_frame(1) [OF sp] by simp
    then show ?thesis
      using sp getSprite_frame [OF sp] sh_stat [OF plain, of "remote w"] none
      by (simp add: stat_def stat_try_def exec_def catch_rethrow_def pu said_def trim_EXISTS)
  qed
  have b: "stat u v = (Inl (FileNotFound u),
        v0\<lparr>remote := ra, issued := issued v @ [stat_cmd pth]\<rparr>)"
    if sp: "getSprite (authority u) v = (Inr sprite, v0)"
      and "sprite (stat_cmd pth) (remote v) = (Inr result, ra)"
      and "trim (stdout result) = ''NOTFOUND'' \<or> trim (stdout result) = []"
    using that getSprite_frame [OF sp]
    by (auto simp add: stat_def stat_try_def exec_def catch_rethrow_def pu)
  have c: "stat u v = (Inl (Unavailable msg),
        v0\<lparr>remote := ra, issued := issued v @ [stat_cmd pth]\<rparr>)"
    if sp: "getSprite (authority u) v = (Inr sprite, v0)"
      and "sprite (stat_cmd pth) (remote v) = (Inl msg, ra)"
    using that getSprite_frame [OF sp]
    by (simp add: stat_def stat_try_def exec_def catch_rethrow_def pu)
  from a b c show ?thesis
    unfolding pth_def by blast
qed

theorem stat_not_found_unavailable_witness:
  \<open>fst (stat \<lparr>authority = ''box1'', path = ''/tmp/none''\<rparr>
          (session store_client \<lparr>nodes = [''/tmp/a.txt'' \<mapsto> Reg [7] 5 5], now = 1700000000\<rparr>))
     = Inl (FileNotFound \<lparr>authority = ''box1'', path = ''/tmp/none''\<rparr>)
   \<and> fst (stat \<lparr>authority = ''box1'', path = ''/tmp/none''\<rparr>
          (session scripted [out ''NOTFOUND\<newline>'']))
     = Inl (FileNotFound \<lparr>authority = ''box1'', path = ''/tmp/none''\<rparr>)
   \<and> fst (stat \<lparr>authority = ''box1'', path = ''/tmp/none''\<rparr> (session scripted []))
     = Inl (Unavailable ''connection closed'')\<close>
proof -
  let ?u = "\<lparr>authority = ''box1'', path = ''/tmp/none''\<rparr>"
  let ?s = "\<lparr>nodes = [''/tmp/a.txt'' \<mapsto> Reg [7] 5 5], now = 1700000000\<rparr>"
  have plain: "shell_plain (snd (parseUri ?u))"
    by (simp add: parseUri_def shell_plain_def)
  have none: "nodes (remote (session store_client ?s)) (snd (parseUri ?u)) = None"
    by (simp add: session_fields parseUri_def)
  have a: "scripted ''box1'' (stat_cmd (snd (parseUri ?u)))
      (remote (session scripted [out ''NOTFOUND\<newline>'']))
      = (Inr \<lparr>stdout = ''NOTFOUND\<newline>'', stderr = []\<rparr>, [])"
    by (simp add: session_fields scripted_reply out_def)
  have b: "scripted ''box1'' (stat_cmd (snd (parseUri ?u))) (remote (session scripted []))
      = (Inl ''connection closed'', [])"
    by (simp add: session_fields scripted_reply)
  have t: "trim (stdout \<lparr>stdout = ''NOTFOUND\<newline>'', stderr = []\<rparr>) = ''NOTFOUND''"
    by (simp add: trim_EXISTS)
  from stat_not_found_unavailable [where u = ?u and w = "session store_client ?s"
      and ?w0.0 = "(session store_client ?s)\<lparr>spriteCache := [''box1'' \<mapsto> sh]\<rparr>"
      and v = "session scripted [out ''NOTFOUND\<newline>'']" and sprite = "scripted ''box1''"
      and ?v0.0 = "(session scripted [out ''NOTFOUND\<newline>''])\<lparr>spriteCache := [''box1'' \<mapsto> scripted ''box1'']\<rparr>"
      and result = "\<lparr>stdout = ''NOTFOUND\<newline>'', stderr = []\<rparr>" and ra = "[]"]
    stat_not_found_unavailable [where u = ?u and v = "session scripted []"
      and sprite = "scripted ''box1''"
      and ?v0.0 = "(session scripted [])\<lparr>spriteCache := [''box1'' \<mapsto> scripted ''box1'']\<rparr>"
      and msg = "''connection closed''" and ra = "[]"]
    getSprite_store [of "''box1''" "''/tmp/none''" ?s]
    getSprite_box [of "''box1''" "''/tmp/none''" "[out ''NOTFOUND\<newline>'']"]
    getSprite_box [of "''box1''" "''/tmp/none''" "[]"]
    plain none a b t
  show ?thesis
    by simp
qed

text \<open>
  Claim C7: \<open>readDirectory\<close> reads the listing line by line. A line that ends with
  \<^verbatim>\<open>/\<close> gives a \<open>Directory\<close>, with \<^verbatim>\<open>@\<close> a \<open>SymbolicLink\<close>, with \<^verbatim>\<open>*\<close>,
  \<^verbatim>\<open>|\<close> or \<^verbatim>\<open>=\<close> a \<open>File\<close>, each named by the line without that character; any
  other line gives a \<open>File\<close> named by the whole line; empty lines and the names
  \<^verbatim>\<open>.\<close> and \<^verbatim>\<open>..\<close> (and an empty name) give no entry; and empty output gives the
  empty result, not an error.
\<close>

theorem readDirectory_listing:
  assumes "getSprite (authority u) w = (Inr sprite, w0)"
    and "sprite (ls_cmd (snd (parseUri u))) (remote w) = (Inr result, ra)"
  shows "readDirectory u w =
       (Inr (if trim (stdout result) = [] then []
             else entries_of (split_on (CHR 0x0A) (trim (stdout result)))),
        w0\<lparr>remote := ra, issued := issued w @ [ls_cmd (snd (parseUri u))]\<rparr>)
     \<and> entries_of ((name @ ''/'') # rest) =
         (if name = [] \<or> name = ''.'' \<or> name = ''..'' then entries_of rest
          else (name, Directory) # entries_of rest)
     \<and> entries_of ((name @ ''@'') # rest) =
         (if name = [] \<or> name = ''.'' \<or> name = ''..'' then entries_of rest
          else (name, SymbolicLink) # entries_of rest)
     \<and> (c = CHR ''*'' \<or> c = CHR ''|'' \<or> c = CHR ''='' \<longrightarrow>
          entries_of ((name @ [c]) # rest) =
            (if name = [] \<or> name = ''.'' \<or> name = ''..'' then entries_of rest
             else (name, File) # entries_of rest))
     \<and> (line \<noteq> [] \<and> last line \<notin> {CHR ''/'', CHR ''@'', CHR ''*'', CHR ''|'', CHR ''=''} \<longrightarrow>
          entries_of (line # rest) =
            (if line = ''.'' \<or> line = ''..'' then entries_of rest
             else (line, File) # entries_of rest))
     \<and> entries_of ([] # rest) = entries_of rest
     \<and> entries_of [] = []"
proof -
  have "readDirectory u w =
       (Inr (if trim (stdout result) = [] then []
             else entries_of (split_on (CHR 0x0A) (trim (stdout result)))),
        w0\<lparr>remote := ra, issued := issued w @ [ls_cmd (snd (parseUri u))]\<rparr>)"
    using assms getSprite_frame [OF assms(1)]
    by (simp add: readDirectory_def catch_unavailable_def exec_def parseUri_def)
  moreover have "entries_of ((name @ ''/'') # rest) =
         (if name = [] \<or> name = ''.'' \<or> name = ''..'' then entries_of rest
          else (name, Directory) # entries_of rest)"
    by (simp add: entry_of_indicator)
  moreover have "entries_of ((name @ ''@'') # rest) =
         (if name = [] \<or> name = ''.'' \<or> name = ''..'' then entries_of rest
          else (name, SymbolicLink) # entries_of rest)"
    by (simp add: entry_of_indicator)
  moreover have "entries_of ((name @ [c]) # rest) =
            (if name = [] \<or> name = ''.'' \<or> name = ''..'' then entries_of rest
             else (name, File) # entries_of rest)"
    if "c = CHR ''*'' \<or> c = CHR ''|'' \<or> c = CHR ''=''"
  proof -
    from that have "entry_of (name @ [c]) = (name, File)"
      using entry_of_indicator(3-5) [of name] by blast
    then show ?thesis by simp
  qed
  moreover have "entries_of (line # rest) =
            (if line = ''.'' \<or> line = ''..'' then entries_of rest
             else (line, File) # entries_of rest)"
    if "line \<noteq> [] \<and> last line \<notin> {CHR ''/'', CHR ''@'', CHR ''*'', CHR ''|'', CHR ''=''}"
    using that entry_of_plain [of line] by simp
  ultimately show ?thesis by simp
qed

theorem readDirectory_listing_witness:
  \<open>fst (readDirectory \<lparr>authority = ''box1'', path = ''/srv''\<rparr>
          (session scripted
             [out ''src/\<newline>link@\<newline>run*\<newline>README\<newline>./\<newline>\<newline>../\<newline>pipe|\<newline>sock=\<newline>'']))
     = Inr [(''src'', Directory), (''link'', SymbolicLink), (''run'', File),
            (''README'', File), (''pipe'', File), (''sock'', File)]
   \<and> fst (readDirectory \<lparr>authority = ''box1'', path = ''/srv''\<rparr> (session scripted [out [] ]))
     = Inr []\<close>
proof -
  let ?u = "\<lparr>authority = ''box1'', path = ''/srv''\<rparr>"
  let ?l = "''src/\<newline>link@\<newline>run*\<newline>README\<newline>./\<newline>\<newline>../\<newline>pipe|\<newline>sock=\<newline>''"
  have a: "scripted ''box1'' (ls_cmd (snd (parseUri ?u))) (remote (session scripted [out ?l]))
      = (Inr \<lparr>stdout = ?l, stderr = []\<rparr>, [])"
    by (simp add: session_fields scripted_reply out_def)
  have b: "scripted ''box1'' (ls_cmd (snd (parseUri ?u))) (remote (session scripted [out [] ]))
      = (Inr \<lparr>stdout = [], stderr = []\<rparr>, [])"
    by (simp add: session_fields scripted_reply out_def)
  from readDirectory_listing [OF getSprite_box a] readDirectory_listing [OF getSprite_box b]
  show ?thesis
    by (simp add: trim_def js_space_def entry_of_def endsWith_def slice_0_m1_def)
qed

text \<open>
  Claim C8: \<open>delete\<close> without \<open>recursive\<close> of a directory that is not empty fails,
  and with \<open>recursive\<close> it succeeds and fires one \<open>Deleted\<close> event for the locator.
  The source never reads the result of the \<^verbatim>\<open>rm\<close> command (\<open>createDirectory\<close>
  reads the standard error of its command). Here the directory \<^verbatim>\<open>/srv/data\<close> holds
  one file. Without \<open>recursive\<close> the remote's \<^verbatim>\<open>rm -f\<close> refuses the directory, with
  its message on standard error, and removes nothing; \<open>delete\<close> succeeds all the same
  and fires \<open>Deleted\<close>, and the directory and its file are still there. With
  \<open>recursive\<close> the directory and its file are removed, and one \<open>Deleted\<close> event is
  fired.
\<close>

theorem delete_directory_not_refused:
  \<open>delete \<lparr>authority = ''box1'', path = ''/srv/data''\<rparr> \<lparr>recursive = False\<rparr>
       (session store_client
          \<lparr>nodes = [''/srv/data'' \<mapsto> Dir 5 5, ''/srv/data/a.txt'' \<mapsto> Reg [7] 6 6],
           now = 1700000000\<rparr>)
     = (Inr (),
        (session store_client
          \<lparr>nodes = [''/srv/data'' \<mapsto> Dir 5 5, ''/srv/data/a.txt'' \<mapsto> Reg [7] 6 6],
           now = 1700000000\<rparr>)
          \<lparr>spriteCache := [''box1'' \<mapsto> sh],
           issued := [''rm -f "/srv/data"''],
           fired := [ [(Deleted, \<lparr>authority = ''box1'', path = ''/srv/data''\<rparr>)] ]\<rparr>)
   \<and> sh ''rm -f "/srv/data"''
        \<lparr>nodes = [''/srv/data'' \<mapsto> Dir 5 5, ''/srv/data/a.txt'' \<mapsto> Reg [7] 6 6],
         now = 1700000000\<rparr>
     = (Inr \<lparr>stdout = [], stderr = ''rm: cannot remove: Is a directory''\<rparr>,
        \<lparr>nodes = [''/srv/data'' \<mapsto> Dir 5 5, ''/srv/data/a.txt'' \<mapsto> Reg [7] 6 6],
         now = 1700000000\<rparr>)
   \<and> fst (delete \<lparr>authority = ''box1'', path = ''/srv/data''\<rparr> \<lparr>recursive = True\<rparr>
       (session store_client
          \<lparr>nodes = [''/srv/data'' \<mapsto> Dir 5 5, ''/srv/data/a.txt'' \<mapsto> Reg [7] 6 6],
           now = 1700000000\<rparr>)) = Inr ()
   \<and> fired (snd (delete \<lparr>authority = ''box1'', path = ''/srv/data''\<rparr> \<lparr>recursive = True\<rparr>
       (session store_client
          \<lparr>nodes = [''/srv/data'' \<mapsto> Dir 5 5, ''/srv/data/a.txt'' \<mapsto> Reg [7] 6 6],
           now = 1700000000\<rparr>)))
     = [ [(Deleted, \<lparr>authority = ''box1'', path = ''/srv/data''\<rparr>)] ]
   \<and> nodes (remote (snd (delete \<lparr>authority = ''box1'', path = ''/srv/data''\<rparr>
       \<lparr>recursive = True\<rparr>
       (session store_client
          \<lparr>nodes = [''/srv/data'' \<mapsto> Dir 5 5, ''/srv/data/a.txt'' \<mapsto> Reg [7] 6 6],
           now = 1700000000\<rparr>)))) ''/srv/data'' = None
   \<and> nodes (remote (snd (delete \<lparr>authority = ''box1'', path = ''/srv/data''\<rparr>
       \<lparr>recursive = True\<rparr>
       (session store_client
          \<lparr>nodes = [''/srv/data'' \<mapsto> Dir 5 5, ''/srv/data/a.txt'' \<mapsto> Reg [7] 6 6],
           now = 1700000000\<rparr>)))) ''/srv/data/a.txt'' = None\<close>
  by (simp add: delete_def exec_def catch_unavailable_def parseUri_def getSprite_def
      session_def store_client_def sh_def sh_parse_def one_word_def two_words_def
      quoted_after_def sh_run_def rm_cmd_def is_dir_def fire_def refused_def said_def
      under_def endsWith_def)

text \<open>
  Claim C9, as stated: when the destination does not exist, the move proceeds and
  \<open>rename\<close> succeeds. The destination \<^verbatim>\<open>/data/a\\b\<close> (two backslashes) names nothing
  in the store; the existence check tests \<^verbatim>\<open>/data/a\b\<close> (one backslash), which is a
  file there, \<open>rename\<close> fails with \<^verbatim>\<open>FileExists\<close>, and no move command is issued.
\<close>

theorem rename_backslash_in_path:
  \<open>nodes \<lparr>nodes = [''/data/x'' \<mapsto> Reg [7] 5 5, ''/data/a'' @ [CHR 0x5C] @ ''b'' \<mapsto> Reg [8] 6 6],
           now = 1700000000\<rparr>
      (''/data/a'' @ [CHR 0x5C, CHR 0x5C] @ ''b'') = None
   \<and> rename \<lparr>authority = ''box1'', path = ''/data/x''\<rparr>
        \<lparr>authority = ''box1'', path = ''/data/a'' @ [CHR 0x5C, CHR 0x5C] @ ''b''\<rparr>
        \<lparr>overwrite = False\<rparr>
        (session store_client
           \<lparr>nodes = [''/data/x'' \<mapsto> Reg [7] 5 5,
                     ''/data/a'' @ [CHR 0x5C] @ ''b'' \<mapsto> Reg [8] 6 6],
            now = 1700000000\<rparr>)
     = (Inl (FileExists
               \<lparr>authority = ''box1'', path = ''/data/a'' @ [CHR 0x5C, CHR 0x5C] @ ''b''\<rparr>),
        (session store_client
           \<lparr>nodes = [''/data/x'' \<mapsto> Reg [7] 5 5,
                     ''/data/a'' @ [CHR 0x5C] @ ''b'' \<mapsto> Reg [8] 6 6],
            now = 1700000000\<rparr>)
          \<lparr>spriteCache := [''box1'' \<mapsto> sh],
           issued := [''test -e "/data/a'' @ [CHR 0x5C, CHR 0x5C] @ ''b" && echo EXISTS'']\<rparr>)\<close>
  by (simp add: rename_def rename_try_def rename_check_def exec_def catch_rethrow_def
      parseUri_def getSprite_def session_def store_client_def sh_def sh_parse_def
      one_word_def two_words_def quoted_after_def sh_run_def test_e_cmd_def said_def
      trim_def js_space_def)

text \<open>
  Claim C9, amended: for two paths of one target that hold no double quote, dollar
  sign, backquote or backslash, \<open>rename\<close> without \<open>overwrite\<close> issues the existence
  check on the destination first. When the destination exists on the remote, \<open>rename\<close>
  fails with \<^verbatim>\<open>FileExists\<close> and the check is the only command issued. When it does
  not exist, the \<^verbatim>\<open>mv\<close> command follows the check, \<open>rename\<close> succeeds, and it fires
  one event list, \<open>Deleted\<close> for the old locator and \<open>Created\<close> for the new one.
\<close>

theorem rename_without_overwrite:
  assumes same: "authority oldUri = authority newUri"
    and sp: "getSprite (authority oldUri) w = (Inr sh, w0)"
    and plain_old: "shell_plain (snd (parseUri oldUri))"
    and plain_new: "shell_plain (snd (parseUri newUri))"
  shows "rename oldUri newUri \<lparr>overwrite = False\<rparr> w =
     (if nodes (remote w) (snd (parseUri newUri)) \<noteq> None
      then (Inl (FileExists newUri),
            w0\<lparr>issued := issued w @ [test_e_cmd (snd (parseUri newUri))]\<rparr>)
      else (Inr (),
            w0\<lparr>remote := snd (sh_run (Mv (snd (parseUri oldUri)) (snd (parseUri newUri)))
                              (remote w)),
               issued := issued w @ [test_e_cmd (snd (parseUri newUri)),
                                     mv_cmd (snd (parseUri oldUri)) (snd (parseUri newUri))],
               fired := fired w @ [ [(Deleted, oldUri), (Created, newUri)] ]\<rparr>))"
proof -
  define a where "a = snd (parseUri oldUri)"
  define b where "b = snd (parseUri newUri)"
  have pa: "parseUri oldUri = (authority oldUri, a)"
    by (simp add: a_def parseUri_def)
  have pb: "parseUri newUri = (authority oldUri, b)"
    using same by (simp add: b_def parseUri_def)
  have plain: "shell_plain a" "shell_plain b"
    using plain_old plain_new by (simp_all add: a_def b_def)
  have "w0\<lparr>remote := remote w, issued := issued w @ [test_e_cmd b]\<rparr>
      = w0\<lparr>issued := issued w @ [test_e_cmd b]\<rparr>"
    using getSprite_frame(1) [OF sp] by simp
  then show ?thesis
    using sp getSprite_frame [OF sp] sh_test_e [OF plain(2), of "remote w"]
      sh_mv [OF plain, of "remote w"]
    unfolding a_def [symmetric] b_def [symmetric]
    by (simp add: rename_def rename_try_def rename_check_def exec_def catch_rethrow_def
        pa pb fire_def said_def trim_EXISTS)
qed

theorem rename_without_overwrite_witness:
  \<open>fst (rename \<lparr>authority = ''box1'', path = ''/a''\<rparr> \<lparr>authority = ''box1'', path = ''/b''\<rparr>
          \<lparr>overwrite = False\<rparr>
          (session store_client
             \<lparr>nodes = [''/a'' \<mapsto> Reg [7] 5 5, ''/b'' \<mapsto> Reg [8] 6 6], now = 1700000000\<rparr>))
     = Inl (FileExists \<lparr>authority = ''box1'', path = ''/b''\<rparr>)
   \<and> issued (snd (rename \<lparr>authority = ''box1'', path = ''/a''\<rparr>
          \<lparr>authority = ''box1'', path = ''/b''\<rparr> \<lparr>overwrite = False\<rparr>
          (session store_client
             \<lparr>nodes = [''/a'' \<mapsto> Reg [7] 5 5, ''/b'' \<mapsto> Reg [8] 6 6], now = 1700000000\<rparr>)))
     = [''test -e "/b" && echo EXISTS'']
   \<and> fst (rename \<lparr>authority = ''box1'', path = ''/a''\<rparr> \<lparr>authority = ''box1'', path = ''/b''\<rparr>
          \<lparr>overwrite = False\<rparr>
          (session store_client \<lparr>nodes = [''/a'' \<mapsto> Reg [7] 5 5], now = 1700000000\<rparr>))
     = Inr ()
   \<and> issued (snd (rename \<lparr>authority = ''box1'', path = ''/a''\<rparr>
          \<lparr>authority = ''box1'', path = ''/b''\<rparr> \<lparr>overwrite = False\<rparr>
          (session store_client \<lparr>nodes = [''/a'' \<mapsto> Reg [7] 5 5], now = 1700000000\<rparr>)))
     = [''test -e "/b" && echo EXISTS'', ''mv "/a" "/b"'']
   \<and> nodes (remote (snd (rename \<lparr>authority = ''box1'', path = ''/a''\<rparr>
          \<lparr>authority = ''box1'', path = ''/b''\<rparr> \<lparr>overwrite = False\<rparr>
          (session store_client \<lparr>nodes = [''/a'' \<mapsto> Reg [7] 5 5], now = 1700000000\<rparr>))))
        ''/b'' = Some (Reg [7] 5 5)
   \<and> nodes (remote (snd (rename \<lparr>authority = ''box1'', path = ''/a''\<rparr>
          \<lparr>authority = ''box1'', path = ''/b''\<rparr> \<lparr>overwrite = False\<rparr>
          (session store_client \<lparr>nodes = [''/a'' \<mapsto> Reg [7] 5 5], now = 1700000000\<rparr>))))
        ''/a'' = None\<close>
proof -
  let ?a = "\<lparr>authority = ''box1'', path = ''/a''\<rparr>"
  let ?b = "\<lparr>authority = ''box1'', path = ''/b''\<rparr>"
  have same: "authority ?a = authority ?b" by simp
  have plain: "shell_plain (snd (parseUri ?a))" "shell_plain (snd (parseUri ?b))"
    by (simp_all add: parseUri_def shell_plain_def)
  from rename_without_overwrite [OF same getSprite_store plain,
      of "\<lparr>nodes = [''/a'' \<mapsto> Reg [7] 5 5, ''/b'' \<mapsto> Reg [8] 6 6], now = 1700000000\<rparr>"]
    rename_without_overwrite [OF same getSprite_store plain,
      of "\<lparr>nodes = [''/a'' \<mapsto> Reg [7] 5 5], now = 1700000000\<rparr>"]
  show ?thesis
    by (simp add: session_fields parseUri_def test_e_cmd_def mv_cmd_def sh_run_def is_dir_def
        under_def endsWith_def said_def Let_def parent_there_def)
qed

text \<open>
  Claim C10: \<open>delete\<close> never fails with \<^verbatim>\<open>FileNotFound\<close>, whatever the locator, the
  option and the world; the command is \<^verbatim>\<open>rm -rf\<close> or \<^verbatim>\<open>rm -f\<close>, with the force
  flag in both; and when the transport call returns, \<open>delete\<close> succeeds and fires
  exactly one \<open>Deleted\<close> event (whether or not anything was there to remove).
\<close>

theorem delete_forced:
  \<open>fst (delete u options w) \<noteq> Inl (FileNotFound v)
   \<and> (\<forall>sprite w0 result ra.
         getSprite (authority u) w = (Inr sprite, w0)
         \<and> sprite (rm_cmd (if recursive options then ''-rf'' else ''-f'') (snd (parseUri u)))
               (remote w) = (Inr result, ra)
         \<longrightarrow> delete u options w =
               (Inr (),
                w0\<lparr>remote := ra,
                   issued := issued w
                     @ [rm_cmd (if recursive options then ''-rf'' else ''-f'') (snd (parseUri u))],
                   fired := fired w @ [ [(Deleted, u)] ]\<rparr>))
   \<and> rm_cmd (if recursive options then ''-rf'' else ''-f'') pth
       = (if recursive options then ''rm -rf "'' @ pth @ ''"'' else ''rm -f "'' @ pth @ ''"'')\<close>
proof -
  have "fst (delete u options w) \<noteq> Inl (FileNotFound v)"
    using delete_result [of u options w] by auto
  moreover have "delete u options w =
      (Inr (),
       w0\<lparr>remote := ra,
          issued := issued w
            @ [rm_cmd (if recursive options then ''-rf'' else ''-f'') (snd (parseUri u))],
          fired := fired w @ [ [(Deleted, u)] ]\<rparr>)"
    if "getSprite (authority u) w = (Inr sprite, w0)"
      and "sprite (rm_cmd (if recursive options then ''-rf'' else ''-f'') (snd (parseUri u)))
             (remote w) = (Inr result, ra)"
    for sprite w0 result ra
    using that getSprite_frame [OF that(1)]
    by (simp add: delete_def catch_unavailable_def exec_def parseUri_def fire_def)
  moreover have "rm_cmd (if recursive options then ''-rf'' else ''-f'') pth
       = (if recursive options then ''rm -rf \"'' @ pth @ ''\"'' else ''rm -f \"'' @ pth @ ''\"'')"
    by (simp add: rm_cmd_def)
  ultimately show ?thesis by blast
qed

theorem delete_forced_witness:
  \<open>delete \<lparr>authority = ''box1'', path = ''/tmp/none''\<rparr> \<lparr>recursive = False\<rparr>
       (session scripted [out [] ])
     = (Inr (),
        (session scripted [out [] ])
          \<lparr>spriteCache := [''box1'' \<mapsto> scripted ''box1''], remote := [],
           issued := [''rm -f "/tmp/none"''],
           fired := [ [(Deleted, \<lparr>authority = ''box1'', path = ''/tmp/none''\<rparr>)] ]\<rparr>)
   \<and> delete \<lparr>authority = ''box1'', path = ''/tmp/none''\<rparr> \<lparr>recursive = True\<rparr>
       (session scripted [out [] ])
     = (Inr (),
        (session scripted [out [] ])
          \<lparr>spriteCache := [''box1'' \<mapsto> scripted ''box1''], remote := [],
           issued := [''rm -rf "/tmp/none"''],
           fired := [ [(Deleted, \<lparr>authority = ''box1'', path = ''/tmp/none''\<rparr>)] ]\<rparr>)\<close>
proof -
  let ?u = "\<lparr>authority = ''box1'', path = ''/tmp/none''\<rparr>"
  let ?w = "session scripted [out [] ]"
  have r: "scripted ''box1''
      (rm_cmd (if recursive opts then ''-rf'' else ''-f'') (snd (parseUri ?u))) (remote ?w)
      = (Inr \<lparr>stdout = [], stderr = []\<rparr>, [])" for opts
    by (simp add: session_fields scripted_reply out_def)
  from delete_forced [of ?u "\<lparr>recursive = False\<rparr>" ?w ?u "[]"]
    delete_forced [of ?u "\<lparr>recursive = True\<rparr>" ?w ?u "[]"]
    getSprite_box [of "''box1''" "''/tmp/none''" "[out [] ]"]
    r [of "\<lparr>recursive = False\<rparr>"] r [of "\<lparr>recursive = True\<rparr>"]
  show ?thesis
    by (simp add: session_fields parseUri_def rm_cmd_def)
qed

end
